theory Spec2Isabelle
  imports Complex_Main "HOL-Library.Word"
begin

unbundle bit_operations_syntax

section \<open>Registers and register groups\<close>

text \<open>
  The file \<^verbatim>\<open>vec512_convert.h\<close> specialises \<^verbatim>\<open>VecConvert<dst_t, dst_n, src_t, src_n>\<close>
  for AVX-512 registers.  A register is modelled by the list of its lanes, lane 0 (the
  least significant bits) first: a \<^verbatim>\<open>__m512i\<close> of 64-bit integers is a list of
  8 words of 64 bits, a \<^verbatim>\<open>__m512\<close> is a list of 16 words of 32 bits (the bit
  patterns of the floats), and so on.  A \<^verbatim>\<open>VectorizedN<T, 1>\<close> is its one register
  (\<^verbatim>\<open>src[0]\<close>), a \<^verbatim>\<open>VectorizedN<T, 2>\<close> is the pair of its registers
  (\<^verbatim>\<open>src[0]\<close>, \<^verbatim>\<open>src[1]\<close>).
\<close>

type_synonym 'a lanes = "'a word list"

text \<open>The logical elements of a group of two registers: register 0 first.\<close>

definition elems2 :: "'a list \<times> 'a list \<Rightarrow> 'a list" where
  "elems2 g = fst g @ snd g"

text \<open>The number of lanes of width \<open>LENGTH('a)\<close> in a register of \<open>bits\<close> bits.\<close>

definition lanes_in :: "nat \<Rightarrow> 'a::len word list \<Rightarrow> nat" where
  "lanes_in bits a = bits div LENGTH('a)"

section \<open>The intrinsics\<close>

subsection \<open>Casts, extraction and insertion\<close>

text \<open>
  \<^verbatim>\<open>_mm512_castsi512_si256\<close>, \<^verbatim>\<open>_mm512_castsi512_si128\<close> and
  \<^verbatim>\<open>_mm512_castps512_ps256\<close> keep the low 256 (128) bits of the register.
\<close>

definition mm512_castsi512_si256 :: "'a::len lanes \<Rightarrow> 'a lanes" where
  "mm512_castsi512_si256 a = take (lanes_in 256 a) a"

definition mm512_castsi512_si128 :: "'a::len lanes \<Rightarrow> 'a lanes" where
  "mm512_castsi512_si128 a = take (lanes_in 128 a) a"

definition mm512_castps512_ps256 :: "32 lanes \<Rightarrow> 32 lanes" where
  "mm512_castps512_ps256 a = take 8 a"

text \<open>
  \<^verbatim>\<open>_mm512_castsi256_si512\<close> and \<^verbatim>\<open>_mm512_castps256_ps512\<close> put the 256 bits in
  the low half of a 512-bit register; the upper 256 bits of the result are undefined.
  The model takes them as the argument \<open>upper\<close>, so that nothing is proved from a
  particular value of them.
\<close>

definition mm512_castsi256_si512 :: "'a lanes \<Rightarrow> 'a lanes \<Rightarrow> 'a lanes" where
  "mm512_castsi256_si512 upper a = a @ upper"

definition mm512_castps256_ps512 :: "32 lanes \<Rightarrow> 32 lanes \<Rightarrow> 32 lanes" where
  "mm512_castps256_ps512 upper a = a @ upper"

text \<open>
  \<^verbatim>\<open>_mm512_extractf32x8_ps(a, imm8)\<close> and \<^verbatim>\<open>_mm512_extracti32x8_epi32(a, imm8)\<close>:
  the low (bit 0 of \<open>imm8\<close> clear) or the high (set) eight 32-bit lanes of \<open>a\<close>.
\<close>

definition mm512_extractf32x8_ps :: "32 lanes \<Rightarrow> nat \<Rightarrow> 32 lanes" where
  "mm512_extractf32x8_ps a imm8 = (if even imm8 then take 8 a else take 8 (drop 8 a))"

definition mm512_extracti32x8_epi32 :: "32 lanes \<Rightarrow> nat \<Rightarrow> 32 lanes" where
  "mm512_extracti32x8_epi32 a imm8 = (if even imm8 then take 8 a else take 8 (drop 8 a))"

text \<open>
  \<^verbatim>\<open>_mm512_insertf32x8(a, b, imm8)\<close> and \<^verbatim>\<open>_mm512_inserti32x8(a, b, imm8)\<close>:
  a copy of \<open>a\<close> whose low (bit 0 of \<open>imm8\<close> clear) or high (set) eight 32-bit lanes are
  replaced by the eight lanes of \<open>b\<close>.
\<close>

definition mm512_insertf32x8 :: "32 lanes \<Rightarrow> 32 lanes \<Rightarrow> nat \<Rightarrow> 32 lanes" where
  "mm512_insertf32x8 a b imm8 = (if even imm8 then b @ drop 8 a else take 8 a @ b)"

definition mm512_inserti32x8 :: "32 lanes \<Rightarrow> 32 lanes \<Rightarrow> nat \<Rightarrow> 32 lanes" where
  "mm512_inserti32x8 a b imm8 = (if even imm8 then b @ drop 8 a else take 8 a @ b)"

subsection \<open>Integer conversions\<close>

text \<open>
  \<^verbatim>\<open>_mm512_cvtepi64_epi32\<close> truncates each 64-bit lane to its low 32 bits;
  \<^verbatim>\<open>_mm512_cvtepi32_epi64\<close> sign-extends each 32-bit lane to 64 bits;
  \<^verbatim>\<open>_mm512_cvtepi8_epi32\<close> sign-extends and \<^verbatim>\<open>_mm512_cvtepu8_epi32\<close> zero-extends
  each of the 16 lanes of 8 bits of a 128-bit register to 32 bits.
\<close>

definition mm512_cvtepi64_epi32 :: "64 lanes \<Rightarrow> 32 lanes" where
  "mm512_cvtepi64_epi32 a = map ucast a"

definition mm512_cvtepi32_epi64 :: "32 lanes \<Rightarrow> 64 lanes" where
  "mm512_cvtepi32_epi64 a = map scast a"

definition mm512_cvtepi8_epi32 :: "8 lanes \<Rightarrow> 32 lanes" where
  "mm512_cvtepi8_epi32 a = map scast a"

definition mm512_cvtepu8_epi32 :: "8 lanes \<Rightarrow> 32 lanes" where
  "mm512_cvtepu8_epi32 a = map ucast a"

section \<open>The integer kernels\<close>

text \<open>\<^verbatim>\<open>VecConvert<int32_t, 1, int64_t, 2>::apply\<close> (narrowing).\<close>

definition VecConvert_int32_1_int64_2 :: "32 lanes \<Rightarrow> 64 lanes \<times> 64 lanes \<Rightarrow> 32 lanes" where
  "VecConvert_int32_1_int64_2 upper src =
     (let low = mm512_cvtepi64_epi32 (fst src);
          high = mm512_cvtepi64_epi32 (snd src)
      in mm512_inserti32x8 (mm512_castsi256_si512 upper low) high 1)"

text \<open>\<^verbatim>\<open>VecConvert<int64_t, 2, int32_t, 1>::apply\<close> (widening).\<close>

definition VecConvert_int64_2_int32_1 :: "32 lanes \<Rightarrow> 64 lanes \<times> 64 lanes" where
  "VecConvert_int64_2_int32_1 src =
     (mm512_cvtepi32_epi64 (mm512_castsi512_si256 src),
      mm512_cvtepi32_epi64 (mm512_extracti32x8_epi32 src 1))"

text \<open>\<^verbatim>\<open>VecConvert<int32_t, 1, int8_t, 1>::apply\<close> and \<^verbatim>\<open>VecConvert<int32_t, 1, uint8_t, 1>::apply\<close>.\<close>

definition VecConvert_int32_1_int8_1 :: "8 lanes \<Rightarrow> 32 lanes" where
  "VecConvert_int32_1_int8_1 src =
     (let src128 = mm512_castsi512_si128 src in mm512_cvtepi8_epi32 src128)"

definition VecConvert_int32_1_uint8_1 :: "8 lanes \<Rightarrow> 32 lanes" where
  "VecConvert_int32_1_uint8_1 src =
     (let src128 = mm512_castsi512_si128 src in mm512_cvtepu8_epi32 src128)"

text \<open>
  \<^verbatim>\<open>VecConvert<dst_t, 1, int64_t, 2>::apply\<close> for \<^verbatim>\<open>dst_t\<close> one of \<^verbatim>\<open>int8_t\<close>,
  \<^verbatim>\<open>uint8_t\<close>.  The file has no specialisation \<^verbatim>\<open>VecConvert<dst_t, 1, int32_t, 1>\<close>:
  the call resolves outside it, and the model takes that conversion as the argument
  \<open>cvt_int32\<close>.
\<close>

definition VecConvert_dst_1_int64_2 ::
  "(32 lanes \<Rightarrow> 8 lanes) \<Rightarrow> 32 lanes \<Rightarrow> 64 lanes \<times> 64 lanes \<Rightarrow> 8 lanes" where
  "VecConvert_dst_1_int64_2 cvt_int32 upper src =
     cvt_int32 (VecConvert_int32_1_int64_2 upper src)"

section \<open>Single-precision floats\<close>

text \<open>
  A lane of a \<^verbatim>\<open>__m512\<close> is the bit pattern of an IEEE 754 binary32 number: bit 31 is
  the sign, bits 30 to 23 the biased exponent, bits 22 to 0 the fraction.
\<close>

type_synonym float32 = "32 word"

definition fp32_sign :: "float32 \<Rightarrow> bool" where
  "fp32_sign x = bit x 31"

definition fp32_exponent :: "float32 \<Rightarrow> nat" where
  "fp32_exponent x = unat (take_bit 8 (drop_bit 23 x))"

definition fp32_fraction :: "float32 \<Rightarrow> nat" where
  "fp32_fraction x = unat (take_bit 23 x)"

definition fp32_is_nan :: "float32 \<Rightarrow> bool" where
  "fp32_is_nan x = (fp32_exponent x = 255 \<and> fp32_fraction x \<noteq> 0)"

definition fp32_is_infinite :: "float32 \<Rightarrow> bool" where
  "fp32_is_infinite x = (fp32_exponent x = 255 \<and> fp32_fraction x = 0)"

definition fp32_is_finite :: "float32 \<Rightarrow> bool" where
  "fp32_is_finite x = (fp32_exponent x < 255)"

text \<open>
  A finite number is \<open>\<plusminus> significand * 2 ^ (scale - 150)\<close>: the significand of a normal
  number has the hidden bit, a subnormal number (biased exponent 0) has none and the
  scale of biased exponent 1.
\<close>

definition fp32_significand :: "float32 \<Rightarrow> nat" where
  "fp32_significand x =
     (if fp32_exponent x = 0 then fp32_fraction x else 2 ^ 23 + fp32_fraction x)"

definition fp32_scale :: "float32 \<Rightarrow> nat" where
  "fp32_scale x = (if fp32_exponent x = 0 then 1 else fp32_exponent x)"

definition fp32_value :: "float32 \<Rightarrow> real" where
  "fp32_value x =
     (let m = (if 150 \<le> fp32_scale x
               then real (fp32_significand x * 2 ^ (fp32_scale x - 150))
               else real (fp32_significand x) / 2 ^ (150 - fp32_scale x))
      in if fp32_sign x then - m else m)"

text \<open>Rounding a real number toward zero.\<close>

definition truncate_toward_zero :: "real \<Rightarrow> int" where
  "truncate_toward_zero r = (if 0 \<le> r then \<lfloor>r\<rfloor> else \<lceil>r\<rceil>)"

subsection \<open>Rounding\<close>

text \<open>
  The rounding control of the MXCSR register and of the \<^verbatim>\<open>_MM_FROUND_\<close> constants:
  to nearest (ties to even), toward minus infinity, toward plus infinity, toward zero.
\<close>

datatype rounding_control = Round_nearest | Round_down | Round_up | Round_zero

text \<open>
  The magnitude \<open>m / 2 ^ k\<close> rounded to a natural number; \<open>neg\<close> is the sign of the number
  rounded, which the two directed modes look at.
\<close>

definition round_magnitude :: "rounding_control \<Rightarrow> bool \<Rightarrow> nat \<Rightarrow> nat \<Rightarrow> nat" where
  "round_magnitude rc neg m k =
     (let q = m div 2 ^ k; r = m mod 2 ^ k;
          away = (case rc of
                    Round_nearest \<Rightarrow> 2 ^ k < 2 * r \<or> (2 * r = 2 ^ k \<and> odd q)
                  | Round_down \<Rightarrow> neg \<and> r \<noteq> 0
                  | Round_up \<Rightarrow> \<not> neg \<and> r \<noteq> 0
                  | Round_zero \<Rightarrow> False)
      in if away then q + 1 else q)"

text \<open>A finite float rounded to an integer, and whether the float is an integer already.\<close>

definition fp32_to_integer :: "rounding_control \<Rightarrow> float32 \<Rightarrow> int" where
  "fp32_to_integer rc x =
     (let mag = (if 150 \<le> fp32_scale x
                 then fp32_significand x * 2 ^ (fp32_scale x - 150)
                 else round_magnitude rc (fp32_sign x) (fp32_significand x) (150 - fp32_scale x))
      in if fp32_sign x then - int mag else int mag)"

definition fp32_is_integral :: "float32 \<Rightarrow> bool" where
  "fp32_is_integral x =
     (150 \<le> fp32_scale x \<or> fp32_significand x mod 2 ^ (150 - fp32_scale x) = 0)"

subsection \<open>The MXCSR register\<close>

text \<open>
  Of the MXCSR register the model keeps the rounding control and the sticky exception
  flags the conversions can raise: invalid operation and precision (inexact result).
\<close>

datatype fp_exception = Invalid | Precision

record mxcsr =
  rounding :: rounding_control
  flags :: "fp_exception set"

definition raise_flags :: "fp_exception set list \<Rightarrow> mxcsr \<Rightarrow> mxcsr" where
  "raise_flags es st = st\<lparr>flags := flags st \<union> \<Union> (set es)\<rparr>"

text \<open>The \<^verbatim>\<open>_MM_FROUND_\<close> constants of the intrinsics header.\<close>

definition MM_FROUND_TO_NEAREST_INT :: nat where "MM_FROUND_TO_NEAREST_INT = 0"
definition MM_FROUND_TO_NEG_INF :: nat where "MM_FROUND_TO_NEG_INF = 1"
definition MM_FROUND_TO_POS_INF :: nat where "MM_FROUND_TO_POS_INF = 2"
definition MM_FROUND_TO_ZERO :: nat where "MM_FROUND_TO_ZERO = 3"
definition MM_FROUND_CUR_DIRECTION :: nat where "MM_FROUND_CUR_DIRECTION = 4"
definition MM_FROUND_NO_EXC :: nat where "MM_FROUND_NO_EXC = 8"

definition rounding_of_bits :: "nat \<Rightarrow> rounding_control" where
  "rounding_of_bits n =
     (if n mod 4 = 0 then Round_nearest else if n mod 4 = 1 then Round_down
      else if n mod 4 = 2 then Round_up else Round_zero)"

subsection \<open>Conversions between floats and 64-bit integers\<close>

text \<open>
  The conversion of one float to a signed 64-bit integer.  A NaN, an infinity and a
  number whose rounded value is not an \<^verbatim>\<open>int64_t\<close> give the integer indefinite value
  \<^verbatim>\<open>0x8000000000000000\<close> and the invalid exception; a number that is not an integer
  gives the precision exception.
\<close>

definition integer_indefinite64 :: "64 word" where
  "integer_indefinite64 = 0x8000000000000000"

definition Convert_FP32_To_Int64 :: "rounding_control \<Rightarrow> float32 \<Rightarrow> 64 word \<times> fp_exception set" where
  "Convert_FP32_To_Int64 rc x =
     (if \<not> fp32_is_finite x then (integer_indefinite64, {Invalid})
      else let n = fp32_to_integer rc x
           in if - (2 ^ 63) \<le> n \<and> n < 2 ^ 63
              then (word_of_int n, if fp32_is_integral x then {} else {Precision})
              else (integer_indefinite64, {Invalid}))"

text \<open>
  \<^verbatim>\<open>_mm512_cvt_roundps_epi64(a, rounding)\<close> converts the 8 floats of a \<^verbatim>\<open>__m256\<close>.
  With \<^verbatim>\<open>_MM_FROUND_CUR_DIRECTION\<close> (bit 2) the rounding control is that of the MXCSR,
  otherwise it is the low two bits of \<open>rounding\<close>; with \<^verbatim>\<open>_MM_FROUND_NO_EXC\<close> (bit 3)
  all exceptions are suppressed: no flag is set.
\<close>

definition mm512_cvt_roundps_epi64 ::
  "mxcsr \<Rightarrow> float32 list \<Rightarrow> nat \<Rightarrow> 64 word list \<times> mxcsr" where
  "mm512_cvt_roundps_epi64 st a rnd =
     (let rc = (if bit rnd 2 then rounding st else rounding_of_bits rnd);
          rs = map (Convert_FP32_To_Int64 rc) a
      in (map fst rs, if bit rnd 3 then st else raise_flags (map snd rs) st))"

text \<open>
  The conversion of an integer to a float.  An integer below \<open>2 ^ 24\<close> in magnitude is
  a float exactly: its significand is the magnitude shifted up to 24 bits.  A larger
  one is rounded to 24 bits, with the precision exception when bits are lost; a
  significand that rounds up to \<open>2 ^ 24\<close> moves to the next exponent.
\<close>

fun bit_length :: "nat \<Rightarrow> nat" where
  "bit_length n = (if n = 0 then 0 else Suc (bit_length (n div 2)))"

declare bit_length.simps [simp del]

definition fp32_pack :: "bool \<Rightarrow> nat \<Rightarrow> nat \<Rightarrow> float32" where
  "fp32_pack s e f = (if s then 2 ^ 31 else 0) + push_bit 23 (word_of_nat e) + word_of_nat f"

definition fp32_of_exact_int :: "int \<Rightarrow> float32" where
  "fp32_of_exact_int n =
     (if n = 0 then 0
      else let a = nat \<bar>n\<bar>; p = bit_length a - 1
           in fp32_pack (n < 0) (127 + p) (a * 2 ^ (23 - p) - 2 ^ 23))"

definition Convert_Int_To_FP32 :: "rounding_control \<Rightarrow> int \<Rightarrow> float32 \<times> fp_exception set" where
  "Convert_Int_To_FP32 rc n =
     (let a = nat \<bar>n\<bar>; p = bit_length a - 1
      in if p \<le> 23 then (fp32_of_exact_int n, {})
         else let q = round_magnitude rc (n < 0) a (p - 23)
              in (if q = 2 ^ 24 then fp32_pack (n < 0) (128 + p) 0
                  else fp32_pack (n < 0) (127 + p) (q - 2 ^ 23),
                  if a mod 2 ^ (p - 23) = 0 then {} else {Precision}))"

text \<open>
  \<^verbatim>\<open>_mm512_cvtepi64_ps\<close> converts the 8 signed 64-bit lanes of a register to the 8 floats
  of a \<^verbatim>\<open>__m256\<close>, rounding as the MXCSR says.
\<close>

definition mm512_cvtepi64_ps :: "mxcsr \<Rightarrow> 64 lanes \<Rightarrow> float32 list \<times> mxcsr" where
  "mm512_cvtepi64_ps st a =
     (let rs = map (\<lambda>v. Convert_Int_To_FP32 (rounding st) (sint v)) a
      in (map fst rs, raise_flags (map snd rs) st))"

section \<open>The kernels between floats and 64-bit integers\<close>

text \<open>\<^verbatim>\<open>VecConvert<float, 1, int64_t, 2>::apply\<close>.\<close>

definition VecConvert_float_1_int64_2 ::
  "float32 list \<Rightarrow> mxcsr \<Rightarrow> 64 lanes \<times> 64 lanes \<Rightarrow> float32 list \<times> mxcsr" where
  "VecConvert_float_1_int64_2 upper st src =
     (let (low, st1) = mm512_cvtepi64_ps st (fst src);
          (high, st2) = mm512_cvtepi64_ps st1 (snd src)
      in (mm512_insertf32x8 (mm512_castps256_ps512 upper low) high 1, st2))"

text \<open>\<^verbatim>\<open>VecConvert<int64_t, 2, float, 1>::apply\<close>.\<close>

definition VecConvert_int64_2_float_1 ::
  "mxcsr \<Rightarrow> float32 list \<Rightarrow> (64 lanes \<times> 64 lanes) \<times> mxcsr" where
  "VecConvert_int64_2_float_1 st src =
     (let (r0, st1) = mm512_cvt_roundps_epi64 st (mm512_castps512_ps256 src)
                        (MM_FROUND_TO_ZERO OR MM_FROUND_NO_EXC);
          (r1, st2) = mm512_cvt_roundps_epi64 st1 (mm512_extractf32x8_ps src 1)
                        (MM_FROUND_TO_ZERO OR MM_FROUND_NO_EXC)
      in ((r0, r1), st2))"

section \<open>Helpers of other headers\<close>

text \<open>
  The kernels for \<^verbatim>\<open>BFloat16\<close>, \<^verbatim>\<open>Half\<close> and the conversions between floats and 8-bit
  integers call helpers that \<^verbatim>\<open>vec512_convert.h\<close> includes from other headers of the
  library.  Their code is not part of the file.
\<close>

text \<open>
  Modelled from the spec: the helper \<^verbatim>\<open>cvtbf16_fp32\<close> of \<^verbatim>\<open>vec512_bfloat16.h\<close>, whose code
  is missing.  ``Up-convert zero-extends the 16 bits into the low mantissa bits of a
  32-bit float'': each 16-bit lane becomes the top half of a float whose low 16 bits
  are zero.
\<close>

definition bf16_to_fp32 :: "16 word \<Rightarrow> float32" where
  "bf16_to_fp32 h = push_bit 16 (ucast h)"

definition cvtbf16_fp32 :: "16 lanes \<Rightarrow> float32 list" where
  "cvtbf16_fp32 a = map bf16_to_fp32 a"

text \<open>
  Modelled from the spec: the helper \<^verbatim>\<open>cvtfp32_bf16\<close> of \<^verbatim>\<open>vec512_bfloat16.h\<close>, whose code
  is missing.  The down-convert is ``round-to-nearest per hardware instruction
  semantics'', ``discarding low mantissa bits'': the 32-bit pattern is rounded to its
  top 16 bits, to nearest with ties to even.  The spec does not say what a NaN becomes;
  the model takes it as the argument \<open>nan\<close>.
\<close>

definition fp32_to_bf16 :: "16 word \<Rightarrow> float32 \<Rightarrow> 16 word" where
  "fp32_to_bf16 nan x =
     (if fp32_is_nan x then nan
      else word_of_nat (round_magnitude Round_nearest False (unat x) 16))"

definition cvtfp32_bf16 :: "16 word \<Rightarrow> float32 list \<Rightarrow> 16 lanes" where
  "cvtfp32_bf16 nan a = map (fp32_to_bf16 nan) a"

text \<open>
  Modelled from the spec: the helpers \<^verbatim>\<open>cvtfp16_fp32\<close> and \<^verbatim>\<open>cvtfp32_fp16\<close> of
  \<^verbatim>\<open>vec512_bfloat16.h\<close>, whose code is missing.  ``Standard IEEE-754 binary16 to and from
  binary32 conversion'', lane by lane; the conversion of one lane is the argument
  \<open>half_to_float\<close>, respectively \<open>float_to_half\<close>.
\<close>

definition cvtfp16_fp32 :: "(16 word \<Rightarrow> float32) \<Rightarrow> 16 lanes \<Rightarrow> float32 list" where
  "cvtfp16_fp32 half_to_float a = map half_to_float a"

definition cvtfp32_fp16 :: "(float32 \<Rightarrow> 16 word) \<Rightarrow> float32 list \<Rightarrow> 16 lanes" where
  "cvtfp32_fp16 float_to_half a = map float_to_half a"

text \<open>The 8-bit destination or source type: \<^verbatim>\<open>signed char\<close> or \<^verbatim>\<open>unsigned char\<close>.\<close>

datatype char_type = Signed_char | Unsigned_char

definition char_min :: "char_type \<Rightarrow> int" where
  "char_min t = (case t of Signed_char \<Rightarrow> - 128 | Unsigned_char \<Rightarrow> 0)"

definition char_max :: "char_type \<Rightarrow> int" where
  "char_max t = (case t of Signed_char \<Rightarrow> 127 | Unsigned_char \<Rightarrow> 255)"

definition char_value :: "char_type \<Rightarrow> 8 word \<Rightarrow> int" where
  "char_value t v = (case t of Signed_char \<Rightarrow> sint v | Unsigned_char \<Rightarrow> uint v)"

text \<open>
  Modelled from the spec: the helper \<^verbatim>\<open>convert_float_to_int8\<close>, whose code is missing.
  ``Saturating conversion: values exceeding the destination type's range clamp to its
  min/max rather than wrapping.''  The spec says neither how a value between two
  integers is rounded nor what a NaN becomes: the model takes the rounding control
  \<open>rc\<close> and the result \<open>nan\<close> for a NaN as arguments.  The 16 floats give the first 16 of
  the 64 lanes of the result; the other lanes are the argument \<open>upper\<close>.
\<close>

definition saturate_char :: "char_type \<Rightarrow> int \<Rightarrow> 8 word" where
  "saturate_char t n = word_of_int (max (char_min t) (min (char_max t) n))"

definition float_to_char :: "char_type \<Rightarrow> rounding_control \<Rightarrow> 8 word \<Rightarrow> float32 \<Rightarrow> 8 word" where
  "float_to_char t rc nan x =
     (if fp32_is_nan x then nan
      else if fp32_is_infinite x
           then word_of_int (if fp32_sign x then char_min t else char_max t)
           else saturate_char t (fp32_to_integer rc x))"

definition convert_float_to_int8 ::
  "char_type \<Rightarrow> rounding_control \<Rightarrow> 8 word \<Rightarrow> 8 lanes \<Rightarrow> float32 list \<Rightarrow> 8 lanes" where
  "convert_float_to_int8 t rc nan upper src = map (float_to_char t rc nan) src @ upper"

text \<open>
  Modelled from the spec: the helper \<^verbatim>\<open>convert_int8_to_float\<close>, whose code is missing.
  ``Up (int8/uint8 to float): exact, lossless'': the first 16 lanes of the source each
  become the float that is their value.
\<close>

definition convert_int8_to_float :: "char_type \<Rightarrow> 8 lanes \<Rightarrow> float32 list" where
  "convert_int8_to_float t src = map (\<lambda>v. fp32_of_exact_int (char_value t v)) (take 16 src)"

text \<open>
  Modelled from the spec: the conversion \<^verbatim>\<open>VecConvert<float, 1, int32_t, 1>\<close>, which the
  file does not specialise and which the spec names only as the second step of
  ``int8 to int32 to float composed''.  Each 32-bit lane is converted to the float
  nearest to its value under the rounding control \<open>rc\<close>.
\<close>

definition VecConvert_float_1_int32_1 :: "rounding_control \<Rightarrow> 32 lanes \<Rightarrow> float32 list" where
  "VecConvert_float_1_int32_1 rc src = map (\<lambda>v. fst (Convert_Int_To_FP32 rc (sint v))) src"

section \<open>The kernels that call the helpers\<close>

text \<open>\<^verbatim>\<open>VecConvert<float, 1, BFloat16, 1>::apply\<close> and \<^verbatim>\<open>VecConvert<float, 1, Half, 1>::apply\<close>.\<close>

definition VecConvert_float_1_BFloat16_1 :: "16 lanes \<Rightarrow> float32 list" where
  "VecConvert_float_1_BFloat16_1 src = cvtbf16_fp32 (mm512_castsi512_si256 src)"

definition VecConvert_float_1_Half_1 :: "(16 word \<Rightarrow> float32) \<Rightarrow> 16 lanes \<Rightarrow> float32 list" where
  "VecConvert_float_1_Half_1 half_to_float src =
     cvtfp16_fp32 half_to_float (mm512_castsi512_si256 src)"

text \<open>\<^verbatim>\<open>VecConvert<BFloat16, 1, float, 1>::apply\<close> and \<^verbatim>\<open>VecConvert<Half, 1, float, 1>::apply\<close>.\<close>

definition VecConvert_BFloat16_1_float_1 :: "16 lanes \<Rightarrow> 16 word \<Rightarrow> float32 list \<Rightarrow> 16 lanes" where
  "VecConvert_BFloat16_1_float_1 upper nan src =
     mm512_castsi256_si512 upper (cvtfp32_bf16 nan src)"

definition VecConvert_Half_1_float_1 ::
  "16 lanes \<Rightarrow> (float32 \<Rightarrow> 16 word) \<Rightarrow> float32 list \<Rightarrow> 16 lanes" where
  "VecConvert_Half_1_float_1 upper float_to_half src =
     mm512_castsi256_si512 upper (cvtfp32_fp16 float_to_half src)"

text \<open>
  \<^verbatim>\<open>VecConvert<dst_t, 1, float, 1>::apply\<close> and \<^verbatim>\<open>VecConvert<float, 1, src_t, 1>::apply\<close>, for
  \<^verbatim>\<open>dst_t\<close> and \<^verbatim>\<open>src_t\<close> one of \<^verbatim>\<open>unsigned char\<close>, \<^verbatim>\<open>signed char\<close>.
\<close>

definition VecConvert_dst_1_float_1 ::
  "char_type \<Rightarrow> rounding_control \<Rightarrow> 8 word \<Rightarrow> 8 lanes \<Rightarrow> float32 list \<Rightarrow> 8 lanes" where
  "VecConvert_dst_1_float_1 dst_t rc nan upper src = convert_float_to_int8 dst_t rc nan upper src"

definition VecConvert_float_1_src_1 :: "char_type \<Rightarrow> 8 lanes \<Rightarrow> float32 list" where
  "VecConvert_float_1_src_1 src_t src = convert_int8_to_float src_t src"

section \<open>The specialisations of the file\<close>

text \<open>
  A conversion is requested by destination type, destination group size, source type
  and source group size.  The file specialises \<^verbatim>\<open>VecConvert\<close> for the tuples below; the
  body of a specialisation is built from conversion intrinsics, calls a helper of another
  header, or composes two other conversions (the outer one first).  Any other tuple
  resolves to the primary template, which is not in the file.
\<close>

datatype scalar_type = BFloat16 | Half | Float | Int64 | Int32 | Int8 | UInt8

type_synonym conversion = "scalar_type \<times> nat \<times> scalar_type \<times> nat"

datatype implementation =
  Intrinsics | Helper | Composition conversion conversion | Primary_template

definition specializations :: "(conversion \<times> implementation) list" where
  "specializations =
     [((Float, 1, BFloat16, 1), Helper),
      ((Float, 1, Half, 1), Helper),
      ((BFloat16, 1, Float, 1), Helper),
      ((Half, 1, Float, 1), Helper),
      ((Float, 1, Int64, 2), Intrinsics),
      ((Int64, 2, Float, 1), Intrinsics),
      ((Int32, 1, Int64, 2), Intrinsics),
      ((Int64, 2, Int32, 1), Intrinsics),
      ((Int32, 1, Int8, 1), Intrinsics),
      ((Int32, 1, UInt8, 1), Intrinsics),
      ((UInt8, 1, Float, 1), Helper),
      ((Int8, 1, Float, 1), Helper),
      ((Float, 1, UInt8, 1), Helper),
      ((Float, 1, Int8, 1), Helper),
      ((Int8, 1, Int64, 2), Composition (Int8, 1, Int32, 1) (Int32, 1, Int64, 2)),
      ((UInt8, 1, Int64, 2), Composition (UInt8, 1, Int32, 1) (Int32, 1, Int64, 2))]"

definition resolve :: "conversion \<Rightarrow> implementation" where
  "resolve c = (case map_of specializations c of Some impl \<Rightarrow> impl | None \<Rightarrow> Primary_template)"

text \<open>
  The two-step conversion from 64-bit to 8-bit integers in the spec's words: every
  logical element is first truncated to its low 32 bits, then the conversion from 32-bit
  integers is applied to the 16 intermediate values.
\<close>

definition int64_to_char_two_step :: "(32 lanes \<Rightarrow> 8 lanes) \<Rightarrow> 64 lanes \<times> 64 lanes \<Rightarrow> 8 lanes" where
  "int64_to_char_two_step cvt_int32 src =
     cvt_int32 (map (\<lambda>y. word_of_int (uint y mod 2 ^ 32)) (elems2 src))"

section \<open>Example values\<close>

definition fits_int64 :: "int \<Rightarrow> bool" where
  "fits_int64 n = (- (2 ^ 63) \<le> n \<and> n < 2 ^ 63)"

text \<open>
  The floats 1000, 100, -1.5, -1000, 9.3e18, a NaN, minus infinity, the largest float
  below \<open>2 ^ 63\<close>, 0.5, the smallest subnormal, -0, 2.5, \<open>- 2 ^ 63\<close>, \<open>2 ^ 24\<close>, a float just
  above 1 and the largest finite float.
\<close>

definition ex_float :: "float32 list" where
  "ex_float = [0x447A0000, 0x42C80000, 0xBFC00000, 0xC47A0000, 0x5F01103D, 0x7FC00000,
               0xFF800000, 0x5EFFFFFF, 0x3F000000, 0x00000001, 0x80000000, 0x40200000,
               0xDF000000, 0x4B800000, 0x3F80FFFF, 0x7F7FFFFF]"

definition ex_bf16 :: "16 lanes" where
  "ex_bf16 = replicate 11 0x3F80 @ [0x4020] @ replicate 20 0"

definition ex_mxcsr :: mxcsr where
  "ex_mxcsr = \<lparr>rounding = Round_nearest, flags = {}\<rparr>"

text \<open>A 64-bit lane whose value is representable in \<^verbatim>\<open>int32_t\<close>.\<close>

definition in_int32_range :: "64 word \<Rightarrow> bool" where
  "in_int32_range y = (- (2 ^ 31) \<le> sint y \<and> sint y < 2 ^ 31)"

text \<open>Example groups, used to instantiate the theorems below.\<close>

definition ex_int64 :: "64 lanes \<times> 64 lanes" where
  "ex_int64 = ([2147483648, 4294967301, 5, 0, 1, 2, 3, - 1],
               [- 2147483648, - 2147483649, 7, 8, 9, 10, 11, 12])"

definition ex_int64_small :: "64 lanes \<times> 64 lanes" where
  "ex_int64_small = ([2147483647, - 3, 5, 0, 1, 2, 3, - 1],
                     [- 2147483648, 6, 7, 8, 9, 10, 11, 12])"

definition ex_int32 :: "32 lanes" where
  "ex_int32 = [0, 1, - 1, 2147483647, - 2147483648, 5, 6, 7, 8, 9, 10, 11, 12, 13, 14, - 15]"

definition ex_int8 :: "8 lanes" where
  "ex_int8 = [0, 1, - 1, 127, - 128, 200, 6, 7, 8, 9, 10, 11, 12, 13, 14, - 15] @ replicate 48 3"

definition ex_int8_other :: "8 lanes" where
  "ex_int8_other = [0, 1, - 1, 127, - 128, 200, 6, 7, 8, 9, 10, 11, 12, 13, 14, - 15] @ replicate 48 9"

definition ex_int64_low :: "64 lanes \<times> 64 lanes" where
  "ex_int64_low = ([2147483648, 5, 5, 0, 1, 2, 3, 4294967295],
                   [2147483648, 2147483647, 7, 8, 9, 10, 11, 12])"

text \<open>An example of a saturating conversion from \<^verbatim>\<open>int32_t\<close> lanes to \<^verbatim>\<open>int8_t\<close> lanes.\<close>

definition ex_saturate_int8 :: "32 lanes \<Rightarrow> 8 lanes" where
  "ex_saturate_int8 v = map (\<lambda>w. word_of_int (max (- 128) (min 127 (sint w)))) v"

section \<open>Lane lemmas for the integer conversions\<close>

lemma narrow_widen_lane: "ucast (scast x :: 64 word) = (x :: 32 word)"
  by (rule bit_word_eqI) (simp add: bit_simps)

lemma sint_narrow_lane: "sint (ucast y :: 32 word) = signed_take_bit 31 (sint (y :: 64 word))"
proof -
  have "sint (ucast y :: 32 word) = signed_take_bit 31 (uint y)"
    by (simp add: signed_ucast_eq)
  also have "\<dots> = signed_take_bit 31 (sint y)"
    by (rule bit_eqI) (auto simp add: bit_simps bit_signed_take_bit_iff min_def)
  finally show ?thesis .
qed

lemma uint_narrow_lane: "uint (ucast y :: 32 word) = uint (y :: 64 word) mod 2 ^ 32"
  by (simp add: unsigned_ucast_eq take_bit_eq_mod)

lemma widen_narrow_lane:
  assumes "in_int32_range y"
  shows "scast (ucast y :: 32 word) = y"
proof -
  have "sint (scast (ucast y :: 32 word) :: 64 word) = sint (ucast y :: 32 word)"
    by (simp add: sint_up_scast is_up)
  also have "\<dots> = sint y"
    using assms by (simp add: in_int32_range_def sint_narrow_lane signed_take_bit_int_eq_self)
  finally show ?thesis by (rule signed_word_eqI)
qed

lemma sint_widen_lane: "sint (scast (x :: 32 word) :: 64 word) = sint x"
  by (simp add: sint_up_scast is_up)

lemma sint_sext8_lane: "sint (scast (x :: 8 word) :: 32 word) = sint x"
  by (simp add: sint_up_scast is_up)

lemma sint_zext8_lane: "sint (ucast (x :: 8 word) :: 32 word) = uint x"
proof -
  have "(- (2 ^ 31) :: int) \<le> 0"
    by simp
  then have "- (2 ^ 31) \<le> uint x"
    using uint_nonnegative [of x] by (rule order_trans)
  moreover have "uint x < 2 ^ 31"
    using uint_lt2p [of x] by simp
  ultimately have "signed_take_bit 31 (uint x) = uint x"
    by (rule signed_take_bit_int_eq_self)
  then show ?thesis by (simp add: signed_ucast_eq)
qed

section \<open>The integer kernels, lane by lane\<close>

lemma take8_drop8: "length (xs :: 'a list) = 16 \<Longrightarrow> take 8 xs @ take 8 (drop 8 xs) = xs"
  by (metis append_take_drop_id length_drop take_all order_refl
      diff_add_inverse numeral_Bit0)

lemma elems2_length: "length (fst g) = 8 \<Longrightarrow> length (snd g) = 8 \<Longrightarrow> length (elems2 g) = 16"
  by (simp add: elems2_def)

lemma narrow_lanes:
  "length (fst src) = 8 \<Longrightarrow>
   VecConvert_int32_1_int64_2 upper src = map ucast (elems2 src)"
  by (simp add: VecConvert_int32_1_int64_2_def mm512_cvtepi64_epi32_def
      mm512_inserti32x8_def mm512_castsi256_si512_def elems2_def)

lemma widen_fst_snd:
  "VecConvert_int64_2_int32_1 src = (map scast (take 8 src), map scast (take 8 (drop 8 src)))"
  by (simp add: VecConvert_int64_2_int32_1_def mm512_cvtepi32_epi64_def
      mm512_castsi512_si256_def mm512_extracti32x8_epi32_def lanes_in_def)

lemma widen_lanes:
  "length src = 16 \<Longrightarrow> elems2 (VecConvert_int64_2_int32_1 src) = map scast src"
  using take8_drop8 [of src] by (simp add: widen_fst_snd elems2_def flip: map_append)

lemma sext8_lanes: "VecConvert_int32_1_int8_1 src = map scast (take 16 src)"
  by (simp add: VecConvert_int32_1_int8_1_def mm512_castsi512_si128_def
      mm512_cvtepi8_epi32_def lanes_in_def)

lemma zext8_lanes: "VecConvert_int32_1_uint8_1 src = map ucast (take 16 src)"
  by (simp add: VecConvert_int32_1_uint8_1_def mm512_castsi512_si128_def
      mm512_cvtepu8_epi32_def lanes_in_def)

section \<open>Claims on the integer kernels\<close>

text \<open>
  Claim C5.  For every group of 16 lanes of \<^verbatim>\<open>int32_t\<close>, widening it to a group of two
  registers of \<^verbatim>\<open>int64_t\<close> and narrowing the result gives the group back, whatever the
  undefined upper half of the cast inside the narrowing kernel holds; the widened group
  has two registers of 8 lanes, and each widened lane has the value of its source lane
  (sign extension).
\<close>

theorem narrow_widen_int32_identity:
  assumes "length src = 16"
  shows "VecConvert_int32_1_int64_2 upper (VecConvert_int64_2_int32_1 src) = src
    \<and> length (fst (VecConvert_int64_2_int32_1 src)) = 8
    \<and> length (snd (VecConvert_int64_2_int32_1 src)) = 8
    \<and> (\<forall>i<16. sint (elems2 (VecConvert_int64_2_int32_1 src) ! i) = sint (src ! i))"
proof -
  let ?w = "VecConvert_int64_2_int32_1 src"
  have l: "length (fst ?w) = 8" "length (snd ?w) = 8"
    using assms by (simp_all add: widen_fst_snd)
  have "VecConvert_int32_1_int64_2 upper ?w = map ucast (elems2 ?w)"
    using l by (simp add: narrow_lanes)
  also have "\<dots> = map (\<lambda>x. ucast (scast x :: 64 word)) src"
    using assms by (simp add: widen_lanes comp_def)
  also have "\<dots> = src"
    by (simp add: narrow_widen_lane)
  finally have rt: "VecConvert_int32_1_int64_2 upper ?w = src" .
  have "sint (elems2 ?w ! i) = sint (src ! i)" if "i < 16" for i
    using assms that by (simp add: widen_lanes sint_widen_lane)
  then show ?thesis using rt l by simp
qed

theorem narrow_widen_int32_identity_witness:
  "length ex_int32 = 16
   \<and> VecConvert_int32_1_int64_2 [] (VecConvert_int64_2_int32_1 ex_int32) = ex_int32
   \<and> sint (elems2 (VecConvert_int64_2_int32_1 ex_int32) ! 4) = - 2147483648"
  using narrow_widen_int32_identity [of ex_int32 "[]"]
  by (simp add: ex_int32_def)

text \<open>
  Claim C9.  For a source register of 64 lanes of 8 bits, the conversion to \<^verbatim>\<open>int32_t\<close>
  gives 16 lanes; lane \<open>i\<close> of the result has the signed value of source lane \<open>i\<close> when the
  source is \<^verbatim>\<open>int8_t\<close> (sign extension) and its unsigned value when the source is
  \<^verbatim>\<open>uint8_t\<close> (zero extension); a source register with the same first 16 lanes (the low
  128 bits) gives the same result, so the lanes beyond them do not affect the output.
\<close>

theorem int8_to_int32_extends_low_128_bits:
  assumes "length src = 64" and "i < 16"
  shows "length (VecConvert_int32_1_int8_1 src) = 16
    \<and> length (VecConvert_int32_1_uint8_1 src) = 16
    \<and> sint (VecConvert_int32_1_int8_1 src ! i) = sint (src ! i)
    \<and> sint (VecConvert_int32_1_uint8_1 src ! i) = uint (src ! i)
    \<and> (take 16 src' = take 16 src \<longrightarrow>
         VecConvert_int32_1_int8_1 src' = VecConvert_int32_1_int8_1 src
         \<and> VecConvert_int32_1_uint8_1 src' = VecConvert_int32_1_uint8_1 src)"
  using assms by (simp add: sext8_lanes zext8_lanes sint_sext8_lane sint_zext8_lane)

theorem int8_to_int32_extends_low_128_bits_witness:
  "length ex_int8 = 64 \<and> (5::nat) < 16
   \<and> ex_int8 ! 5 = 200
   \<and> sint (VecConvert_int32_1_int8_1 ex_int8 ! 5) = - 56
   \<and> sint (VecConvert_int32_1_uint8_1 ex_int8 ! 5) = 200
   \<and> take 16 ex_int8_other = take 16 ex_int8
   \<and> ex_int8_other \<noteq> ex_int8
   \<and> VecConvert_int32_1_int8_1 ex_int8_other = VecConvert_int32_1_int8_1 ex_int8
   \<and> VecConvert_int32_1_uint8_1 ex_int8_other = VecConvert_int32_1_uint8_1 ex_int8"
  using int8_to_int32_extends_low_128_bits [of ex_int8 5 ex_int8_other]
  by (simp add: ex_int8_def ex_int8_other_def)


text \<open>
  Claim C3.  For every lane \<open>y\<close> of a group of two registers of \<^verbatim>\<open>int64_t\<close>, the narrowing
  kernel returns the low 32 bits of \<open>y\<close>, read as a signed 32-bit integer (wrapping, no
  saturation); when \<open>y\<close> is in the range of \<^verbatim>\<open>int32_t\<close>, widening the narrowed group gives
  \<open>y\<close> back in that lane, and when every lane is in range, it gives the whole group back.
\<close>

theorem narrow_int64_wraps_widen_restores:
  assumes "length (fst src) = 8" and "length (snd src) = 8" and "i < 16"
  shows "VecConvert_int32_1_int64_2 upper src ! i = ucast (elems2 src ! i)
    \<and> sint (VecConvert_int32_1_int64_2 upper src ! i)
        = signed_take_bit 31 (sint (elems2 src ! i))
    \<and> (in_int32_range (elems2 src ! i) \<longrightarrow>
         elems2 (VecConvert_int64_2_int32_1 (VecConvert_int32_1_int64_2 upper src)) ! i
           = elems2 src ! i)
    \<and> ((\<forall>y \<in> set (elems2 src). in_int32_range y) \<longrightarrow>
         VecConvert_int64_2_int32_1 (VecConvert_int32_1_int64_2 upper src) = src)"
proof -
  let ?n = "VecConvert_int32_1_int64_2 upper src"
  have len: "length (elems2 src) = 16"
    using assms by (simp add: elems2_length)
  have n: "?n = map ucast (elems2 src)"
    using assms by (simp add: narrow_lanes)
  have lane: "?n ! i = ucast (elems2 src ! i)"
    using len \<open>i < 16\<close> by (simp add: n)
  have w: "elems2 (VecConvert_int64_2_int32_1 ?n)
      = map (\<lambda>y. scast (ucast y :: 32 word)) (elems2 src)"
    using len by (simp add: widen_lanes n comp_def)
  have one: "in_int32_range (elems2 src ! i) \<longrightarrow>
      elems2 (VecConvert_int64_2_int32_1 ?n) ! i = elems2 src ! i"
    using len \<open>i < 16\<close> by (simp add: w widen_narrow_lane)
  have all: "VecConvert_int64_2_int32_1 ?n = src"
    if r: "\<forall>y \<in> set (elems2 src). in_int32_range y"
  proof -
    have "map (\<lambda>y. scast (ucast y :: 32 word)) (elems2 src) = elems2 src"
      using r by (simp add: map_idI widen_narrow_lane)
    then have e: "elems2 (VecConvert_int64_2_int32_1 ?n) = elems2 src"
      by (simp add: w)
    have "length (fst (VecConvert_int64_2_int32_1 ?n)) = 8"
      using len by (simp add: widen_fst_snd n)
    then have "fst (VecConvert_int64_2_int32_1 ?n) = fst src
        \<and> snd (VecConvert_int64_2_int32_1 ?n) = snd src"
      using e assms(1) by (simp add: elems2_def append_eq_append_conv)
    then show ?thesis by (simp add: prod_eq_iff)
  qed
  show ?thesis
    using lane one all by (simp add: sint_narrow_lane)
qed

theorem narrow_int64_wraps_widen_restores_witness:
  "length (fst ex_int64) = 8 \<and> length (snd ex_int64) = 8 \<and> (0::nat) < 16
   \<and> \<not> in_int32_range (elems2 ex_int64 ! 0)
   \<and> sint (elems2 ex_int64 ! 0) = 2147483648
   \<and> sint (VecConvert_int32_1_int64_2 [] ex_int64 ! 0) = - 2147483648
   \<and> length (fst ex_int64_small) = 8 \<and> length (snd ex_int64_small) = 8
   \<and> in_int32_range (elems2 ex_int64_small ! 0)
   \<and> list_all in_int32_range (elems2 ex_int64_small)
   \<and> VecConvert_int64_2_int32_1 (VecConvert_int32_1_int64_2 [] ex_int64_small)
       = ex_int64_small"
  using narrow_int64_wraps_widen_restores [of ex_int64 0 "[]"]
    narrow_int64_wraps_widen_restores [of ex_int64_small 0 "[]"]
  by (simp add: ex_int64_def ex_int64_small_def elems2_def in_int32_range_def)

lemma ucast_take_bit_32: "(ucast (take_bit 32 (y :: 64 word)) :: 32 word) = ucast y"
  by (rule bit_word_eqI) (simp add: bit_simps)

lemma narrow_low_bits:
  assumes "map (take_bit 32) ys' = map (take_bit 32) (ys :: 64 word list)"
  shows "(map ucast ys' :: 32 word list) = map ucast ys"
proof -
  have "(map ucast zs :: 32 word list) = map ucast (map (take_bit 32) zs)"
    for zs :: "64 word list"
    by (simp add: ucast_take_bit_32)
  then show ?thesis using assms by metis
qed

text \<open>
  Claim C10.  The composed conversion from \<^verbatim>\<open>int64_t\<close> to \<^verbatim>\<open>int8_t\<close> or \<^verbatim>\<open>uint8_t\<close> applies
  the conversion from \<^verbatim>\<open>int32_t\<close> to the narrowed group, whose lanes are the source lanes
  modulo \<open>2 ^ 32\<close>; so two source groups whose lanes agree on their low 32 bits convert to
  the same result, whatever the conversion from \<^verbatim>\<open>int32_t\<close> does (saturating or not): the
  bits above the low 32 are never seen.
\<close>

theorem int64_to_int8_sees_low_32_bits:
  assumes "length (fst src) = 8" and "length (snd src) = 8"
    and "length (fst src') = 8" and "length (snd src') = 8"
    and "map (take_bit 32) (elems2 src') = map (take_bit 32) (elems2 src)"
  shows "VecConvert_dst_1_int64_2 cvt_int32 upper src
      = cvt_int32 (map ucast (elems2 src))
    \<and> (\<forall>i<16. uint ((map ucast (elems2 src) :: 32 word list) ! i)
          = uint (elems2 src ! i) mod 2 ^ 32)
    \<and> VecConvert_dst_1_int64_2 cvt_int32 upper' src'
      = VecConvert_dst_1_int64_2 cvt_int32 upper src"
proof -
  have len: "length (elems2 src) = 16"
    using assms by (simp add: elems2_length)
  have a: "VecConvert_dst_1_int64_2 cvt_int32 u s = cvt_int32 (map ucast (elems2 s))"
    if "length (fst s) = 8" for u s
    using that by (simp add: VecConvert_dst_1_int64_2_def narrow_lanes)
  have b: "uint ((map ucast (elems2 src) :: 32 word list) ! i) = uint (elems2 src ! i) mod 2 ^ 32"
    if "i < 16" for i
    using that len by (simp add: uint_narrow_lane)
  have c: "(map ucast (elems2 src') :: 32 word list) = map ucast (elems2 src)"
    using assms(5) by (rule narrow_low_bits)
  show ?thesis
    using a [OF assms(1)] a [OF assms(3)] b c by simp
qed

theorem int64_to_int8_sees_low_32_bits_witness:
  "length (fst ex_int64) = 8 \<and> length (snd ex_int64) = 8
   \<and> length (fst ex_int64_low) = 8 \<and> length (snd ex_int64_low) = 8
   \<and> map (take_bit 32) (elems2 ex_int64) = map (take_bit 32) (elems2 ex_int64_low)
   \<and> elems2 ex_int64 ! 1 = 4294967301 \<and> elems2 ex_int64_low ! 1 = 5
   \<and> VecConvert_dst_1_int64_2 ex_saturate_int8 [] ex_int64
       = VecConvert_dst_1_int64_2 ex_saturate_int8 [] ex_int64_low
   \<and> VecConvert_dst_1_int64_2 ex_saturate_int8 [] ex_int64 ! 1 = 5"
  using int64_to_int8_sees_low_32_bits [of ex_int64_low ex_int64 ex_saturate_int8 "[]" "[]"]
  by (simp add: ex_int64_def ex_int64_low_def elems2_def ex_saturate_int8_def mask_numeral)

section \<open>The conversion from floats to 64-bit integers\<close>

lemma trunc_nat: "truncate_toward_zero (real n) = int n"
  by (simp add: truncate_toward_zero_def)

lemma trunc_neg_nat: "truncate_toward_zero (- real n) = - int n"
  by (simp add: truncate_toward_zero_def ceiling_minus)

lemma floor_nat_div_pow2: "\<lfloor>real m / 2 ^ k\<rfloor> = int (m div 2 ^ k)"
proof -
  have "\<lfloor>real m / real (2 ^ k)\<rfloor> = int (m div 2 ^ k)"
    by (rule floor_divide_of_nat_eq)
  then show ?thesis by simp
qed

lemma trunc_div_pow2: "truncate_toward_zero (real m / 2 ^ k) = int (m div 2 ^ k)"
  by (simp add: truncate_toward_zero_def floor_nat_div_pow2)

lemma trunc_neg_div_pow2: "truncate_toward_zero (- (real m / 2 ^ k)) = - int (m div 2 ^ k)"
proof (cases "0 \<le> - (real m / 2 ^ k)")
  case True
  then have "real m / 2 ^ k \<le> 0" by simp
  moreover have "0 \<le> real m / 2 ^ k" by simp
  ultimately have z: "real m / 2 ^ k = 0" by linarith
  have "int (m div 2 ^ k) = \<lfloor>real m / 2 ^ k\<rfloor>" by (simp add: floor_nat_div_pow2)
  then have "int (m div 2 ^ k) = 0" by (simp add: z)
  then show ?thesis by (simp add: truncate_toward_zero_def z)
next
  case False
  then show ?thesis
    by (simp add: truncate_toward_zero_def ceiling_minus floor_nat_div_pow2)
qed

lemma round_magnitude_zero: "round_magnitude Round_zero neg m k = m div 2 ^ k"
  by (simp add: round_magnitude_def)

lemma fp32_to_integer_truncates:
  "fp32_to_integer Round_zero x = truncate_toward_zero (fp32_value x)"
  by (simp add: fp32_to_integer_def fp32_value_def round_magnitude_zero Let_def
      trunc_nat trunc_neg_nat trunc_div_pow2 trunc_neg_div_pow2 del: of_nat_mult of_nat_power)

lemma rnd_arg: "\<not> bit (MM_FROUND_TO_ZERO OR MM_FROUND_NO_EXC) 2"
  "bit (MM_FROUND_TO_ZERO OR MM_FROUND_NO_EXC) 3"
  "rounding_of_bits (MM_FROUND_TO_ZERO OR MM_FROUND_NO_EXC) = Round_zero"
  by (simp_all add: MM_FROUND_TO_ZERO_def MM_FROUND_NO_EXC_def rounding_of_bits_def bit_0)

lemma cvt_roundps_to_zero_no_exc:
  "mm512_cvt_roundps_epi64 st a (MM_FROUND_TO_ZERO OR MM_FROUND_NO_EXC)
     = (map (\<lambda>x. fst (Convert_FP32_To_Int64 Round_zero x)) a, st)"
  by (simp add: mm512_cvt_roundps_epi64_def rnd_arg Let_def comp_def)

lemma float_to_int64_unfold:
  "VecConvert_int64_2_float_1 st src =
     ((map (\<lambda>x. fst (Convert_FP32_To_Int64 Round_zero x)) (take 8 src),
       map (\<lambda>x. fst (Convert_FP32_To_Int64 Round_zero x)) (take 8 (drop 8 src))), st)"
  by (simp add: VecConvert_int64_2_float_1_def cvt_roundps_to_zero_no_exc
      mm512_castps512_ps256_def mm512_extractf32x8_ps_def)


lemma float_to_int64_lanes:
  assumes "length src = 16"
  shows "elems2 (fst (VecConvert_int64_2_float_1 st src))
    = map (\<lambda>x. fst (Convert_FP32_To_Int64 Round_zero x)) src"
  using take8_drop8 [OF assms]
  by (simp add: float_to_int64_unfold elems2_def flip: map_append)

lemma sint_word_of_int_64: "fits_int64 n \<Longrightarrow> sint (word_of_int n :: 64 word) = n"
  by (simp add: fits_int64_def sint_sbintrunc' signed_take_bit_int_eq_self)

lemma Convert_FP32_To_Int64_zero:
  "fst (Convert_FP32_To_Int64 Round_zero x) =
     (if fp32_is_finite x \<and> fits_int64 (truncate_toward_zero (fp32_value x))
      then word_of_int (truncate_toward_zero (fp32_value x)) else integer_indefinite64)"
  by (simp add: Convert_FP32_To_Int64_def fp32_to_integer_truncates fits_int64_def Let_def)

text \<open>
  Claim C4.  For every register of 16 floats, the conversion to \<^verbatim>\<open>int64_t\<close> leaves the
  MXCSR as it was (no exception flag is raised, whatever the lanes hold); a lane that is
  finite and whose value rounded toward zero is an \<^verbatim>\<open>int64_t\<close> converts to that integer;
  every other lane (NaN, infinity, overflow) converts to the integer indefinite value
  \<^verbatim>\<open>0x8000000000000000\<close> rather than to a saturated bound.
\<close>

theorem float_to_int64_truncates_without_exception:
  assumes "length src = 16" and "i < 16"
  shows "snd (VecConvert_int64_2_float_1 st src) = st
    \<and> (fp32_is_finite (src ! i) \<and> fits_int64 (truncate_toward_zero (fp32_value (src ! i)))
        \<longrightarrow> sint (elems2 (fst (VecConvert_int64_2_float_1 st src)) ! i)
              = truncate_toward_zero (fp32_value (src ! i)))
    \<and> (\<not> (fp32_is_finite (src ! i) \<and> fits_int64 (truncate_toward_zero (fp32_value (src ! i))))
        \<longrightarrow> elems2 (fst (VecConvert_int64_2_float_1 st src)) ! i = integer_indefinite64)"
proof -
  have "snd (VecConvert_int64_2_float_1 st src) = st"
    by (simp add: float_to_int64_unfold)
  moreover have "elems2 (fst (VecConvert_int64_2_float_1 st src)) ! i
      = fst (Convert_FP32_To_Int64 Round_zero (src ! i))"
    using assms by (simp add: float_to_int64_lanes)
  ultimately show ?thesis
    by (simp add: Convert_FP32_To_Int64_zero sint_word_of_int_64)
qed

lemma ex_float_values:
  "fp32_to_integer Round_zero (ex_float ! 2) = - 1"
  "fp32_is_finite (ex_float ! 2)"
  "fp32_to_integer Round_zero (ex_float ! 4) = 9300000300729368576"
  "fp32_is_finite (ex_float ! 4)"
  by (simp_all add: ex_float_def fp32_to_integer_def fp32_is_finite_def fp32_exponent_def
      fp32_scale_def fp32_significand_def fp32_fraction_def fp32_sign_def
      round_magnitude_def)

theorem float_to_int64_truncates_without_exception_witness:
  "length ex_float = 16 \<and> (2::nat) < 16 \<and> (4::nat) < 16
   \<and> snd (VecConvert_int64_2_float_1 ex_mxcsr ex_float) = ex_mxcsr
   \<and> fp32_is_finite (ex_float ! 2)
   \<and> truncate_toward_zero (fp32_value (ex_float ! 2)) = - 1
   \<and> fits_int64 (truncate_toward_zero (fp32_value (ex_float ! 2)))
   \<and> sint (elems2 (fst (VecConvert_int64_2_float_1 ex_mxcsr ex_float)) ! 2) = - 1
   \<and> fp32_is_finite (ex_float ! 4)
   \<and> truncate_toward_zero (fp32_value (ex_float ! 4)) = 9300000300729368576
   \<and> \<not> fits_int64 (truncate_toward_zero (fp32_value (ex_float ! 4)))
   \<and> elems2 (fst (VecConvert_int64_2_float_1 ex_mxcsr ex_float)) ! 4 = 0x8000000000000000"
proof -
  have len: "length ex_float = 16"
    by (simp add: ex_float_def)
  note v = ex_float_values [unfolded fp32_to_integer_truncates]
  show ?thesis
    using float_to_int64_truncates_without_exception [OF len, of 2 ex_mxcsr]
      float_to_int64_truncates_without_exception [OF len, of 4 ex_mxcsr]
    by (simp add: len v fits_int64_def integer_indefinite64_def)
qed

section \<open>The composed conversion and the specialisations\<close>

lemma resolve_int64_to_char:
  "resolve (Int8, 1, Int64, 2) = Composition (Int8, 1, Int32, 1) (Int32, 1, Int64, 2)"
  "resolve (UInt8, 1, Int64, 2) = Composition (UInt8, 1, Int32, 1) (Int32, 1, Int64, 2)"
  "resolve (Int32, 1, Int64, 2) = Intrinsics"
  "resolve (Int8, 1, Int32, 1) = Primary_template"
  "resolve (UInt8, 1, Int32, 1) = Primary_template"
  by (simp_all add: resolve_def specializations_def)

lemma resolve_char_to_int64:
  "resolve (Int64, 2, Int8, 1) = Primary_template"
  "resolve (Int64, 2, UInt8, 1) = Primary_template"
  by (simp_all add: resolve_def specializations_def)

lemma word_of_int_uint_mod: "(word_of_int (uint y mod 2 ^ 32) :: 32 word) = ucast (y :: 64 word)"
  by (simp add: word_uint_eq_iff uint_word_of_int unsigned_ucast_eq take_bit_eq_mod)

lemma two_step_lanes: "int64_to_char_two_step cvt_int32 src = cvt_int32 (map ucast (elems2 src))"
  by (simp only: int64_to_char_two_step_def word_of_int_uint_mod)

text \<open>
  Claim C6, amended.  The conversion from a group of two registers of \<^verbatim>\<open>int64_t\<close> to
  \<^verbatim>\<open>int8_t\<close> or \<^verbatim>\<open>uint8_t\<close> is the composition of the conversion from \<^verbatim>\<open>int32_t\<close> (which
  the file does not specialise) after the specialised narrowing kernel from \<^verbatim>\<open>int64_t\<close> to
  \<^verbatim>\<open>int32_t\<close>; its result is that of the two applied in sequence, and equals the two-step
  conversion through 32-bit intermediate values.  The file has no specialisation, composed
  or direct, for the opposite direction, from 8-bit integers to \<^verbatim>\<open>int64_t\<close>.
\<close>

theorem int64_to_char_is_two_step_composition:
  assumes "length (fst src) = 8"
  shows "resolve (Int8, 1, Int64, 2) = Composition (Int8, 1, Int32, 1) (Int32, 1, Int64, 2)
    \<and> resolve (UInt8, 1, Int64, 2) = Composition (UInt8, 1, Int32, 1) (Int32, 1, Int64, 2)
    \<and> resolve (Int32, 1, Int64, 2) = Intrinsics
    \<and> resolve (Int8, 1, Int32, 1) = Primary_template
    \<and> resolve (UInt8, 1, Int32, 1) = Primary_template
    \<and> resolve (Int64, 2, Int8, 1) = Primary_template
    \<and> resolve (Int64, 2, UInt8, 1) = Primary_template
    \<and> VecConvert_dst_1_int64_2 cvt_int32 upper src
        = cvt_int32 (VecConvert_int32_1_int64_2 upper src)
    \<and> int64_to_char_two_step cvt_int32 src
        = VecConvert_dst_1_int64_2 cvt_int32 upper src"
proof -
  have "VecConvert_dst_1_int64_2 cvt_int32 upper src
      = cvt_int32 (VecConvert_int32_1_int64_2 upper src)"
    by (simp add: VecConvert_dst_1_int64_2_def)
  moreover have "int64_to_char_two_step cvt_int32 src
      = VecConvert_dst_1_int64_2 cvt_int32 upper src"
    using assms by (simp add: VecConvert_dst_1_int64_2_def narrow_lanes two_step_lanes)
  ultimately show ?thesis
    using resolve_int64_to_char resolve_char_to_int64 by (intro conjI)
qed

theorem int64_to_char_is_two_step_composition_witness:
  "length (fst ex_int64) = 8
   \<and> VecConvert_dst_1_int64_2 ex_saturate_int8 [] ex_int64
       = [- 128, 5, 5, 0, 1, 2, 3, - 1, - 128, 127, 7, 8, 9, 10, 11, 12]
   \<and> int64_to_char_two_step ex_saturate_int8 ex_int64
       = [- 128, 5, 5, 0, 1, 2, 3, - 1, - 128, 127, 7, 8, 9, 10, 11, 12]"
proof -
  have l: "length (fst ex_int64) = 8"
    by (simp add: ex_int64_def)
  have v: "VecConvert_dst_1_int64_2 ex_saturate_int8 [] ex_int64
       = [- 128, 5, 5, 0, 1, 2, 3, - 1, - 128, 127, 7, 8, 9, 10, 11, 12]"
    by (simp add: VecConvert_dst_1_int64_2_def narrow_lanes l)
      (simp add: ex_int64_def elems2_def ex_saturate_int8_def sint_narrow_lane)
  show ?thesis
    using int64_to_char_is_two_step_composition [OF l, of ex_saturate_int8 "[]"]
    by (simp only: l v simp_thms)
qed

text \<open>
  Claim C6 as stated fails for the direction from 8-bit integers to \<^verbatim>\<open>int64_t\<close>: that
  conversion is not a composition of the 8-to-32-bit and 32-to-64-bit kernels.
\<close>

theorem char_to_int64_not_composed_counterexample:
  "resolve (Int64, 2, Int8, 1) \<noteq> Composition (Int64, 2, Int32, 1) (Int32, 1, Int8, 1)
   \<and> resolve (Int64, 2, UInt8, 1) \<noteq> Composition (Int64, 2, Int32, 1) (Int32, 1, UInt8, 1)
   \<and> resolve (Int64, 2, Int8, 1) = Primary_template
   \<and> resolve (Int64, 2, UInt8, 1) = Primary_template"
  by (simp add: resolve_def specializations_def)

section \<open>Lane order\<close>

lemma rounding_raise_flags: "rounding (raise_flags es st) = rounding st"
  by (simp add: raise_flags_def)

lemma cvtepi64_ps_unfold:
  "mm512_cvtepi64_ps st a =
     (map (\<lambda>v. fst (Convert_Int_To_FP32 (rounding st) (sint v))) a,
      raise_flags (map (\<lambda>v. snd (Convert_Int_To_FP32 (rounding st) (sint v))) a) st)"
  by (simp add: mm512_cvtepi64_ps_def Let_def comp_def)

lemma int64_to_float_lanes:
  assumes "length (fst src) = 8"
  shows "fst (VecConvert_float_1_int64_2 upper st src)
    = map (\<lambda>v. fst (Convert_Int_To_FP32 (rounding st) (sint v))) (elems2 src)"
  using assms
  by (simp add: VecConvert_float_1_int64_2_def cvtepi64_ps_unfold rounding_raise_flags
      mm512_insertf32x8_def mm512_castps256_ps512_def elems2_def)

lemma bf16_to_float_lanes:
  "VecConvert_float_1_BFloat16_1 src = map bf16_to_fp32 (take 16 src)"
  by (simp add: VecConvert_float_1_BFloat16_1_def cvtbf16_fp32_def
      mm512_castsi512_si256_def lanes_in_def)

lemma half_to_float_lanes:
  "VecConvert_float_1_Half_1 h2f src = map h2f (take 16 src)"
  by (simp add: VecConvert_float_1_Half_1_def cvtfp16_fp32_def
      mm512_castsi512_si256_def lanes_in_def)

lemma float_to_bf16_lanes:
  "VecConvert_BFloat16_1_float_1 upper nan src = map (fp32_to_bf16 nan) src @ upper"
  by (simp add: VecConvert_BFloat16_1_float_1_def cvtfp32_bf16_def mm512_castsi256_si512_def)

lemma float_to_half_lanes:
  "VecConvert_Half_1_float_1 upper f2h src = map f2h src @ upper"
  by (simp add: VecConvert_Half_1_float_1_def cvtfp32_fp16_def mm512_castsi256_si512_def)

lemma float_to_char_lanes:
  "VecConvert_dst_1_float_1 t rc nan upper src = map (float_to_char t rc nan) src @ upper"
  by (simp add: VecConvert_dst_1_float_1_def convert_float_to_int8_def)

lemma char_to_float_lanes:
  "VecConvert_float_1_src_1 t src = map (\<lambda>v. fp32_of_exact_int (char_value t v)) (take 16 src)"
  by (simp add: VecConvert_float_1_src_1_def convert_int8_to_float_def)

lemma nth_of_take16:
  assumes "take 16 ys = map f (take 16 xs)" and "i < 16" and "16 \<le> length xs"
  shows "ys ! i = f (xs ! i)"
proof -
  have "length (take 16 ys) = 16"
    using assms by simp
  then have "take 16 ys ! i = ys ! i"
    using \<open>i < 16\<close> by simp
  moreover have "map f (take 16 xs) ! i = f (xs ! i)"
    using assms by simp
  ultimately show ?thesis
    using assms(1) by simp
qed

text \<open>
  Claim C2.  For every specialisation of the file and every lane index \<open>i\<close> below 16,
  logical element \<open>i\<close> of the result is the conversion of logical element \<open>i\<close> of the
  source: for the kernels on one register, for the kernels that merge a group of two
  registers into one register and for those that split one register into a group of two.
  The lanes of the helpers of other headers are converted lane by lane, as the spec says;
  the composed conversion from \<^verbatim>\<open>int64_t\<close> preserves the order when the conversion from
  \<^verbatim>\<open>int32_t\<close> it calls does.
\<close>

theorem lane_order_preserved:
  assumes "i < 16"
    and "length h = 32"
    and "length f = 16"
    and "length (fst q) = 8" and "length (snd q) = 8"
    and "length d = 16"
    and "length b = 64"
    and "\<And>v. take 16 (cvt_int32 v) = map cvt_lane (take 16 v)"
  shows "VecConvert_float_1_BFloat16_1 h ! i = bf16_to_fp32 (h ! i)
    \<and> VecConvert_float_1_Half_1 half_to_float h ! i = half_to_float (h ! i)
    \<and> VecConvert_BFloat16_1_float_1 upper_h nan_h f ! i = fp32_to_bf16 nan_h (f ! i)
    \<and> VecConvert_Half_1_float_1 upper_h float_to_half f ! i = float_to_half (f ! i)
    \<and> fst (VecConvert_float_1_int64_2 upper_w st q) ! i
        = fst (Convert_Int_To_FP32 (rounding st) (sint (elems2 q ! i)))
    \<and> elems2 (fst (VecConvert_int64_2_float_1 st f)) ! i
        = fst (Convert_FP32_To_Int64 Round_zero (f ! i))
    \<and> VecConvert_int32_1_int64_2 upper_w q ! i = ucast (elems2 q ! i)
    \<and> elems2 (VecConvert_int64_2_int32_1 d) ! i = scast (d ! i)
    \<and> VecConvert_int32_1_int8_1 b ! i = scast (b ! i)
    \<and> VecConvert_int32_1_uint8_1 b ! i = ucast (b ! i)
    \<and> VecConvert_dst_1_float_1 t rc nan_c upper_c f ! i = float_to_char t rc nan_c (f ! i)
    \<and> VecConvert_float_1_src_1 t b ! i = fp32_of_exact_int (char_value t (b ! i))
    \<and> VecConvert_dst_1_int64_2 cvt_int32 upper_w q ! i = cvt_lane (ucast (elems2 q ! i))"
proof -
  have lq: "length (elems2 q) = 16"
    using assms by (simp add: elems2_length)
  have 1: "VecConvert_float_1_BFloat16_1 h ! i = bf16_to_fp32 (h ! i)"
    using assms by (simp add: bf16_to_float_lanes)
  have 2: "VecConvert_float_1_Half_1 half_to_float h ! i = half_to_float (h ! i)"
    using assms by (simp add: half_to_float_lanes)
  have 3: "VecConvert_BFloat16_1_float_1 upper_h nan_h f ! i = fp32_to_bf16 nan_h (f ! i)"
    using assms by (simp add: float_to_bf16_lanes nth_append)
  have 4: "VecConvert_Half_1_float_1 upper_h float_to_half f ! i = float_to_half (f ! i)"
    using assms by (simp add: float_to_half_lanes nth_append)
  have 5: "fst (VecConvert_float_1_int64_2 upper_w st q) ! i
        = fst (Convert_Int_To_FP32 (rounding st) (sint (elems2 q ! i)))"
    using assms lq by (simp add: int64_to_float_lanes)
  have 6: "elems2 (fst (VecConvert_int64_2_float_1 st f)) ! i
        = fst (Convert_FP32_To_Int64 Round_zero (f ! i))"
    using assms by (simp add: float_to_int64_lanes)
  have 7: "VecConvert_int32_1_int64_2 upper_w q ! i = ucast (elems2 q ! i)"
    using assms lq by (simp add: narrow_lanes)
  have 8: "elems2 (VecConvert_int64_2_int32_1 d) ! i = scast (d ! i)"
    using assms by (simp add: widen_lanes)
  have 9: "VecConvert_int32_1_int8_1 b ! i = scast (b ! i)"
    using assms by (simp add: sext8_lanes)
  have 10: "VecConvert_int32_1_uint8_1 b ! i = ucast (b ! i)"
    using assms by (simp add: zext8_lanes)
  have 11: "VecConvert_dst_1_float_1 t rc nan_c upper_c f ! i = float_to_char t rc nan_c (f ! i)"
    using assms by (simp add: float_to_char_lanes nth_append)
  have 12: "VecConvert_float_1_src_1 t b ! i = fp32_of_exact_int (char_value t (b ! i))"
    using assms by (simp add: char_to_float_lanes)
  have "take 16 (cvt_int32 (map ucast (elems2 q))) = map cvt_lane (take 16 (map ucast (elems2 q)))"
    by (rule assms(8))
  then have "cvt_int32 (map ucast (elems2 q)) ! i = cvt_lane (map ucast (elems2 q) ! i)"
    using \<open>i < 16\<close> lq by (intro nth_of_take16) simp_all
  then have 13: "VecConvert_dst_1_int64_2 cvt_int32 upper_w q ! i = cvt_lane (ucast (elems2 q ! i))"
    using assms lq by (simp add: VecConvert_dst_1_int64_2_def narrow_lanes)
  from 1 2 3 4 5 6 7 8 9 10 11 12 13 show ?thesis
    by (intro conjI)
qed


lemma bit_length_0: "bit_length 0 = 0"
  by (simp add: bit_length.simps)

lemma bit_length_pos: "0 < n \<Longrightarrow> bit_length n = Suc (bit_length (n div 2))"
  by (subst bit_length.simps) simp

lemma ex_lane_values:
  "bf16_to_fp32 0x4020 = 0x40200000"
  "fp32_to_bf16 0x7FC0 0x40200000 = 0x4020"
  "fst (Convert_Int_To_FP32 Round_nearest 8) = 0x41000000"
  "fst (Convert_FP32_To_Int64 Round_zero 0x40200000) = 2"
  "float_to_char Signed_char Round_nearest 0 0x40200000 = 2"
  "fp32_of_exact_int 11 = 0x41300000"
  by (simp_all add: bf16_to_fp32_def fp32_to_bf16_def Convert_Int_To_FP32_def
      Convert_FP32_To_Int64_def float_to_char_def fp32_of_exact_int_def fp32_pack_def
      saturate_char_def char_min_def char_max_def bit_length_0 bit_length_pos
      fp32_to_integer_def fp32_is_finite_def fp32_is_nan_def fp32_is_infinite_def
      fp32_is_integral_def fp32_exponent_def fp32_scale_def fp32_significand_def
      fp32_fraction_def fp32_sign_def round_magnitude_def)

lemma ex_lanes_at_11:
  "ex_bf16 ! 11 = 0x4020" "ex_float ! 11 = 0x40200000" "elems2 ex_int64 ! 11 = 8"
  "ex_int32 ! 11 = 11" "ex_int8 ! 11 = 11"
  by (simp_all add: ex_bf16_def ex_float_def ex_int64_def ex_int32_def ex_int8_def
      elems2_def nth_append)

theorem lane_order_preserved_witness:
  "(11::nat) < 16 \<and> length ex_bf16 = 32 \<and> length ex_float = 16
   \<and> length (fst ex_int64) = 8 \<and> length (snd ex_int64) = 8
   \<and> length ex_int32 = 16 \<and> length ex_int8 = 64
   \<and> VecConvert_float_1_BFloat16_1 ex_bf16 ! 11 = 0x40200000
   \<and> VecConvert_BFloat16_1_float_1 [] 0x7FC0 ex_float ! 11 = 0x4020
   \<and> fst (VecConvert_float_1_int64_2 [] ex_mxcsr ex_int64) ! 11 = 0x41000000
   \<and> elems2 (fst (VecConvert_int64_2_float_1 ex_mxcsr ex_float)) ! 11 = 2
   \<and> VecConvert_int32_1_int64_2 [] ex_int64 ! 11 = 8
   \<and> elems2 (VecConvert_int64_2_int32_1 ex_int32) ! 11 = 11
   \<and> VecConvert_int32_1_int8_1 ex_int8 ! 11 = 11
   \<and> VecConvert_int32_1_uint8_1 ex_int8 ! 11 = 11
   \<and> VecConvert_dst_1_float_1 Signed_char Round_nearest 0 [] ex_float ! 11 = 2
   \<and> VecConvert_float_1_src_1 Signed_char ex_int8 ! 11 = 0x41300000
   \<and> VecConvert_dst_1_int64_2 ex_saturate_int8 [] ex_int64 ! 11 = 8"
proof -
  have len: "length ex_bf16 = 32" "length ex_float = 16"
    "length (fst ex_int64) = 8" "length (snd ex_int64) = 8"
    "length ex_int32 = 16" "length ex_int8 = 64"
    by (simp_all add: ex_bf16_def ex_float_def ex_int64_def ex_int32_def ex_int8_def)
  have lw: "take 16 (ex_saturate_int8 v)
      = map (\<lambda>w. word_of_int (max (- 128) (min 127 (sint w)))) (take 16 v)" for v
    by (simp add: ex_saturate_int8_def take_map)
  have i: "(11::nat) < 16"
    by simp
  show ?thesis
    using lane_order_preserved [where upper_h = "[]" and nan_h = "0x7FC0"
        and upper_w = "[]" and st = ex_mxcsr and t = Signed_char and rc = Round_nearest
        and nan_c = 0 and upper_c = "[]", OF i len lw]
    by (simp add: len ex_lane_values ex_lanes_at_11 ex_mxcsr_def char_value_def)
qed

section \<open>The fields of a float\<close>

lemma fp32_exponent_nat: "fp32_exponent x = unat x div 2 ^ 23 mod 2 ^ 8"
  by (simp add: fp32_exponent_def take_bit_eq_mod drop_bit_eq_div unat_div unat_mod)

lemma fp32_fraction_nat: "fp32_fraction x = unat x mod 2 ^ 23"
  by (simp add: fp32_fraction_def take_bit_eq_mod unat_mod)

lemma fp32_sign_nat: "fp32_sign x = odd (unat x div 2 ^ 31)"
proof -
  have "bit x 31 = bit (unat x) 31"
    by (simp add: bit_unsigned_iff)
  then show ?thesis
    by (simp only: fp32_sign_def bit_iff_odd)
qed

lemma unat_fp32_pack:
  assumes "e < 256" and "f < 2 ^ 23"
  shows "unat (fp32_pack s e f) = (if s then 2 ^ 31 else 0) + e * 2 ^ 23 + f"
proof -
  let ?n = "(if s then 2 ^ 31 else 0) + e * 2 ^ 23 + f"
  have "fp32_pack s e f = word_of_nat ?n"
    by (simp add: fp32_pack_def push_bit_eq_mult)
  moreover have "?n < 2 ^ 32"
    using assms by simp
  ultimately show ?thesis
    by (simp add: unat_of_nat del: of_nat_add of_nat_mult)
qed

lemma fp32_pack_fields:
  assumes "e < 256" and "f < 2 ^ 23"
  shows "fp32_exponent (fp32_pack s e f) = e"
    and "fp32_fraction (fp32_pack s e f) = f"
    and "fp32_sign (fp32_pack s e f) = s"
proof -
  let ?S = "if s then 2 ^ 31 else (0::nat)"
  have u: "unat (fp32_pack s e f) = (?S div 2 ^ 23 + e) * 2 ^ 23 + f"
    using assms by (simp add: unat_fp32_pack algebra_simps)
  have d: "unat (fp32_pack s e f) div 2 ^ 23 = ?S div 2 ^ 23 + e"
    using assms(2) by (simp only: u div_mult_self3 div_less)
  have "(?S div 2 ^ 23 + e) mod 2 ^ 8 = e"
    using assms(1) by simp
  then show "fp32_exponent (fp32_pack s e f) = e"
    by (simp only: fp32_exponent_nat d)
  show "fp32_fraction (fp32_pack s e f) = f"
    using assms(2) by (simp only: fp32_fraction_nat u mod_mult_self3 mod_less)
  have r: "e * 2 ^ 23 + f < 2 ^ 31"
    using assms by simp
  then have "(2 ^ 31 + (e * 2 ^ 23 + f)) div 2 ^ 31 = 1"
    by (simp only: div_add_self1 div_less)
  then have "unat (fp32_pack s e f) div 2 ^ 31 = (if s then 1 else 0)"
    using assms r by (simp add: unat_fp32_pack add.assoc)
  then show "fp32_sign (fp32_pack s e f) = s"
    by (simp add: fp32_sign_nat)
qed


section \<open>Integers as floats\<close>

lemma bit_length_bounds:
  "0 < a \<Longrightarrow> 2 ^ (bit_length a - 1) \<le> a \<and> a < 2 ^ bit_length a"
proof (induction a rule: bit_length.induct)
  case (1 n)
  show ?case
  proof (cases "n div 2 = 0")
    case True
    then have "n = 1" using "1.prems" by (cases n) auto
    then show ?thesis by (simp add: bit_length_pos bit_length_0)
  next
    case False
    then have ih: "2 ^ (bit_length (n div 2) - 1) \<le> n div 2 \<and> n div 2 < 2 ^ bit_length (n div 2)"
      using "1.IH" "1.prems" by simp
    have pos: "0 < bit_length (n div 2)"
      using False by (simp add: bit_length_pos)
    have bl: "bit_length n = Suc (bit_length (n div 2))"
      using "1.prems" by (simp add: bit_length_pos)
    have "2 ^ (bit_length n - 1) = 2 * 2 ^ (bit_length (n div 2) - 1)"
      using pos by (simp add: bl flip: power_Suc)
    also have "\<dots> \<le> 2 * (n div 2)"
      using ih by simp
    also have "\<dots> \<le> n"
      by simp
    finally have lo: "2 ^ (bit_length n - 1) \<le> n" .
    have "n < 2 * (n div 2) + 2"
      by presburger
    also have "\<dots> \<le> 2 * 2 ^ bit_length (n div 2)"
      using ih by simp
    finally have "n < 2 ^ bit_length n"
      by (simp add: bl)
    with lo show ?thesis ..
  qed
qed

lemma fp32_value_of_exact_int:
  assumes "\<bar>n\<bar> < 2 ^ 24"
  shows "fp32_value (fp32_of_exact_int n) = real_of_int n"
    and "fp32_is_finite (fp32_of_exact_int n)"
proof -
  let ?a = "nat \<bar>n\<bar>" and ?x = "fp32_of_exact_int n"
  have "fp32_value ?x = real_of_int n \<and> fp32_is_finite ?x"
  proof (cases "n = 0")
    case True
    then show ?thesis
      by (simp add: fp32_of_exact_int_def fp32_value_def fp32_is_finite_def fp32_sign_def
          fp32_scale_def fp32_significand_def fp32_exponent_def fp32_fraction_def)
  next
    case False
    then have apos: "0 < ?a" by simp
    have a24: "?a < 2 ^ 24" using assms by simp
    obtain p where bl: "bit_length ?a = Suc p"
      using apos by (auto simp add: bit_length_pos)
    have b: "2 ^ p \<le> ?a" "?a < 2 * 2 ^ p"
      using bit_length_bounds [OF apos] by (simp_all add: bl)
    have "(2::nat) ^ p < 2 ^ 24"
      using b(1) a24 by (rule le_less_trans)
    then have p: "p < 24"
      by (rule power_less_imp_less_exp [rotated]) simp
    let ?k = "23 - p"
    have split: "(2::nat) ^ 23 = 2 ^ p * 2 ^ ?k"
      using p by (simp flip: power_add)
    have "2 ^ p * 2 ^ ?k \<le> ?a * 2 ^ ?k"
      using b(1) by (rule mult_le_mono1)
    then have lo: "2 ^ 23 \<le> ?a * 2 ^ ?k"
      by (simp only: split)
    have "?a * 2 ^ ?k < (2 * 2 ^ p) * 2 ^ ?k"
      using b(2) by simp
    also have "\<dots> = 2 * 2 ^ 23"
      by (simp only: split mult.assoc)
    finally have hi: "?a * 2 ^ ?k < 2 ^ 24"
      by simp
    let ?f = "?a * 2 ^ ?k - 2 ^ 23"
    have f: "?f < 2 ^ 23" using hi by simp
    have e: "127 + p < 256" using p by simp
    have x: "?x = fp32_pack (n < 0) (127 + p) ?f"
      using False by (simp add: fp32_of_exact_int_def Let_def bl)
    note fld = fp32_pack_fields [OF e f, of "n < 0", folded x]
    have sig: "fp32_significand ?x = ?a * 2 ^ ?k"
      using lo by (simp add: fp32_significand_def fld)
    have sc: "fp32_scale ?x = 127 + p"
      by (simp add: fp32_scale_def fld)
    have mag: "(if 150 \<le> 127 + p then real (?a * 2 ^ ?k * 2 ^ (127 + p - 150))
        else real (?a * 2 ^ ?k) / 2 ^ (150 - (127 + p))) = real ?a"
    proof (cases "p = 23")
      case True
      then show ?thesis by simp
    next
      case False
      then have "p < 23" using p by simp
      then have "\<not> 150 \<le> 127 + p" and "150 - (127 + p) = ?k"
        by simp_all
      then show ?thesis by simp
    qed
    have "fp32_value ?x = (if n < 0 then - real ?a else real ?a)"
      by (simp only: fp32_value_def sig sc fld Let_def mag)
    then have "fp32_value ?x = real_of_int n"
      by (simp add: abs_if)
    moreover have "fp32_is_finite ?x"
      using p by (simp add: fp32_is_finite_def fld)
    ultimately show ?thesis ..
  qed
  then show "fp32_value ?x = real_of_int n" and "fp32_is_finite ?x"
    by simp_all
qed

lemma Convert_exact_int:
  assumes "\<bar>n\<bar> < 2 ^ 24"
  shows "Convert_Int_To_FP32 rc n = (fp32_of_exact_int n, {})"
proof (cases "n = 0")
  case True
  then show ?thesis
    by (simp add: Convert_Int_To_FP32_def bit_length_0)
next
  case False
  let ?a = "nat \<bar>n\<bar>"
  have apos: "0 < ?a" using False by simp
  have "(2::nat) ^ (bit_length ?a - 1) \<le> ?a"
    using bit_length_bounds [OF apos] by simp
  also have "?a < 2 ^ 24"
    using assms by simp
  finally have "bit_length ?a - 1 < 24"
    by (rule power_less_imp_less_exp [rotated]) simp
  then show ?thesis
    by (simp add: Convert_Int_To_FP32_def Let_def)
qed


lemma sint8_small: "\<bar>sint (v :: 8 word)\<bar> < 2 ^ 24"
  using sint_ge [of v] sint_lt [of v] by simp

lemma uint8_small: "\<bar>uint (v :: 8 word)\<bar> < 2 ^ 24"
  using uint_lt2p [of v] by simp

lemma char_value_small: "\<bar>char_value t v\<bar> < 2 ^ 24"
  by (cases t) (simp_all only: char_value_def char_type.case sint8_small uint8_small)

lemma composed_signed_lane:
  "fst (Convert_Int_To_FP32 rc (sint (scast (v :: 8 word) :: 32 word)))
     = fp32_of_exact_int (char_value Signed_char v)"
  by (simp only: sint_sext8_lane Convert_exact_int [OF sint8_small] fst_conv
      char_value_def char_type.case)

lemma composed_unsigned_lane:
  "fst (Convert_Int_To_FP32 rc (sint (ucast (v :: 8 word) :: 32 word)))
     = fp32_of_exact_int (char_value Unsigned_char v)"
  by (simp only: sint_zext8_lane Convert_exact_int [OF uint8_small] fst_conv
      char_value_def char_type.case)

text \<open>
  Claim C8.  For every source register of 8-bit integers, signed or unsigned, the direct
  conversion to floats gives the same register as the conversion to \<^verbatim>\<open>int32_t\<close> followed by
  the conversion from \<^verbatim>\<open>int32_t\<close> to floats, under any rounding control; and each of the 16
  floats is finite and has exactly the value of its source lane.
\<close>

theorem char_to_float_direct_equals_composed:
  assumes "length src = 64" and "i < 16"
  shows "VecConvert_float_1_src_1 Signed_char src
      = VecConvert_float_1_int32_1 rc (VecConvert_int32_1_int8_1 src)
    \<and> VecConvert_float_1_src_1 Unsigned_char src
      = VecConvert_float_1_int32_1 rc (VecConvert_int32_1_uint8_1 src)
    \<and> fp32_is_finite (VecConvert_float_1_src_1 t src ! i)
    \<and> fp32_value (VecConvert_float_1_src_1 t src ! i) = real_of_int (char_value t (src ! i))"
proof -
  have s: "VecConvert_float_1_src_1 Signed_char src
      = VecConvert_float_1_int32_1 rc (VecConvert_int32_1_int8_1 src)"
    by (simp add: char_to_float_lanes VecConvert_float_1_int32_1_def sext8_lanes
        comp_def composed_signed_lane)
  have u: "VecConvert_float_1_src_1 Unsigned_char src
      = VecConvert_float_1_int32_1 rc (VecConvert_int32_1_uint8_1 src)"
    by (simp add: char_to_float_lanes VecConvert_float_1_int32_1_def zext8_lanes
        comp_def composed_unsigned_lane)
  have l: "VecConvert_float_1_src_1 t src ! i = fp32_of_exact_int (char_value t (src ! i))"
    using assms by (simp add: char_to_float_lanes)
  show ?thesis
    using s u by (simp add: l fp32_value_of_exact_int [OF char_value_small])
qed

theorem char_to_float_direct_equals_composed_witness:
  "length ex_int8 = 64 \<and> (5::nat) < 16 \<and> ex_int8 ! 5 = 200
   \<and> VecConvert_float_1_src_1 Signed_char ex_int8 ! 5 = 0xC2600000
   \<and> VecConvert_float_1_int32_1 Round_nearest (VecConvert_int32_1_int8_1 ex_int8) ! 5 = 0xC2600000
   \<and> fp32_value (VecConvert_float_1_src_1 Signed_char ex_int8 ! 5) = - 56
   \<and> VecConvert_float_1_src_1 Unsigned_char ex_int8 ! 5 = 0x43480000
   \<and> VecConvert_float_1_int32_1 Round_nearest (VecConvert_int32_1_uint8_1 ex_int8) ! 5 = 0x43480000
   \<and> fp32_value (VecConvert_float_1_src_1 Unsigned_char ex_int8 ! 5) = 200"
proof -
  have len: "length ex_int8 = 64" and i: "(5::nat) < 16" and v: "ex_int8 ! 5 = 200"
    by (simp_all add: ex_int8_def)
  have d: "VecConvert_float_1_src_1 Signed_char ex_int8 ! 5 = 0xC2600000"
    "VecConvert_float_1_src_1 Unsigned_char ex_int8 ! 5 = 0x43480000"
    using len by (simp_all add: char_to_float_lanes v char_value_def fp32_of_exact_int_def
        fp32_pack_def bit_length_0 bit_length_pos)
  note S = char_to_float_direct_equals_composed [OF len i, of Round_nearest Signed_char]
  note U = char_to_float_direct_equals_composed [OF len i, of Round_nearest Unsigned_char]
  note c = S [THEN conjunct1, symmetric] S [THEN conjunct2, THEN conjunct1, symmetric]
  have vs: "fp32_value (VecConvert_float_1_src_1 Signed_char ex_int8 ! 5) = - 56"
    using S [THEN conjunct2, THEN conjunct2, THEN conjunct2] by (simp add: v char_value_def)
  have vu: "fp32_value (VecConvert_float_1_src_1 Unsigned_char ex_int8 ! 5) = 200"
    using U [THEN conjunct2, THEN conjunct2, THEN conjunct2] by (simp add: v char_value_def)
  from len v d vs vu show ?thesis
    by (simp add: c)
qed

section \<open>Rounding stays between floor and ceiling\<close>

lemma round_magnitude_bounds:
  "m div 2 ^ k \<le> round_magnitude rc neg m k"
  "round_magnitude rc neg m k \<le> (if m mod 2 ^ k = 0 then m div 2 ^ k else m div 2 ^ k + 1)"
  by (cases rc; simp add: round_magnitude_def Let_def)+

lemma ceiling_nat_div_pow2:
  "\<lceil>real m / 2 ^ k\<rceil> = int (if m mod 2 ^ k = 0 then m div 2 ^ k else m div 2 ^ k + 1)"
proof (cases "m mod 2 ^ k = 0")
  case True
  then have "m = m div 2 ^ k * 2 ^ k"
    by (simp add: mod_eq_0_iff_dvd)
  then have "real m = real (m div 2 ^ k) * 2 ^ k"
    by (metis of_nat_mult of_nat_numeral of_nat_power)
  then have "real m / 2 ^ k = real (m div 2 ^ k)"
    by simp
  then show ?thesis
    using True by simp
next
  case False
  let ?q = "m div 2 ^ k" and ?r = "m mod 2 ^ k"
  have m: "?q * 2 ^ k + ?r = m"
    by (rule div_mult_mod_eq)
  have "?q * 2 ^ k < m"
    using False m by linarith
  then have "real (?q * 2 ^ k) < real m"
    by (simp only: of_nat_less_iff)
  then have lo: "real ?q < real m / 2 ^ k"
    by (simp add: pos_less_divide_eq)
  have "?r < 2 ^ k"
    by simp
  moreover have "(?q + 1) * 2 ^ k = ?q * 2 ^ k + 2 ^ k"
    by (simp add: algebra_simps)
  ultimately have "m < (?q + 1) * 2 ^ k"
    using m by linarith
  then have "real m < real ((?q + 1) * 2 ^ k)"
    by (simp only: of_nat_less_iff)
  then have hi: "real m / 2 ^ k \<le> real ?q + 1"
    by (simp add: pos_divide_le_eq algebra_simps)
  have "\<lceil>real m / 2 ^ k\<rceil> = int ?q + 1"
    using lo hi by (intro ceiling_unique) simp_all
  then show ?thesis
    using False by simp
qed

lemma fp32_to_integer_bounds:
  "\<lfloor>fp32_value x\<rfloor> \<le> fp32_to_integer rc x"
  "fp32_to_integer rc x \<le> \<lceil>fp32_value x\<rceil>"
proof -
  let ?m = "fp32_significand x" and ?e = "fp32_scale x"
  have "\<lfloor>fp32_value x\<rfloor> \<le> fp32_to_integer rc x \<and> fp32_to_integer rc x \<le> \<lceil>fp32_value x\<rceil>"
  proof (cases "150 \<le> ?e")
    case True
    then show ?thesis
      by (simp add: fp32_value_def fp32_to_integer_def Let_def ceiling_minus floor_minus
          del: of_nat_mult of_nat_power)
  next
    case False
    let ?k = "150 - ?e"
    let ?rm = "round_magnitude rc (fp32_sign x) ?m ?k"
    have f: "\<lfloor>real ?m / 2 ^ ?k\<rfloor> \<le> int ?rm"
      using round_magnitude_bounds(1) [of ?m ?k rc "fp32_sign x"]
      by (simp only: floor_nat_div_pow2 of_nat_le_iff)
    have c: "int ?rm \<le> \<lceil>real ?m / 2 ^ ?k\<rceil>"
      using round_magnitude_bounds(2) [of rc "fp32_sign x" ?m ?k]
      by (simp only: ceiling_nat_div_pow2 of_nat_le_iff)
    show ?thesis
      using False f c
      by (cases "fp32_sign x")
        (simp_all add: fp32_value_def fp32_to_integer_def Let_def ceiling_minus floor_minus)
  qed
  then show "\<lfloor>fp32_value x\<rfloor> \<le> fp32_to_integer rc x"
    and "fp32_to_integer rc x \<le> \<lceil>fp32_value x\<rceil>"
    by simp_all
qed


section \<open>The saturating conversion to 8-bit integers\<close>

lemma fp32_finite_iff: "fp32_is_finite x \<longleftrightarrow> \<not> fp32_is_nan x \<and> \<not> fp32_is_infinite x"
proof -
  have "fp32_exponent x < 256"
    by (simp add: fp32_exponent_nat)
  then show ?thesis
    by (auto simp add: fp32_is_finite_def fp32_is_nan_def fp32_is_infinite_def)
qed

lemma char_min_le_max: "char_min t \<le> char_max t"
  by (cases t) (simp_all add: char_min_def char_max_def)

lemma char_value_word_of_int:
  assumes "char_min t \<le> c" and "c \<le> char_max t"
  shows "char_value t (word_of_int c) = c"
proof (cases t)
  case Signed_char
  then have "- (2 ^ 7) \<le> c" "c < 2 ^ 7"
    using assms by (simp_all add: char_min_def char_max_def)
  then have "signed_take_bit 7 c = c"
    by (rule signed_take_bit_int_eq_self)
  then show ?thesis
    using Signed_char by (simp add: char_value_def sint_sbintrunc')
next
  case Unsigned_char
  then have "0 \<le> c" "c < 2 ^ 8"
    using assms by (simp_all add: char_min_def char_max_def)
  then have "take_bit 8 c = c"
    by (simp add: take_bit_int_eq_self)
  then show ?thesis
    using Unsigned_char by (simp add: char_value_def uint_word_of_int_eq)
qed

lemma char_value_saturate:
  "char_value t (saturate_char t n) = max (char_min t) (min (char_max t) n)"
  unfolding saturate_char_def
  using char_min_le_max [of t] by (intro char_value_word_of_int) simp_all

lemma float_to_char_finite:
  "fp32_is_finite x \<Longrightarrow>
   char_value t (float_to_char t rc nan x)
     = max (char_min t) (min (char_max t) (fp32_to_integer rc x))"
  by (simp add: float_to_char_def fp32_finite_iff char_value_saturate)

lemma float_to_char_infinite:
  "fp32_is_infinite x \<Longrightarrow>
   char_value t (float_to_char t rc nan x) = (if fp32_sign x then char_min t else char_max t)"
  using char_min_le_max [of t]
  by (simp add: float_to_char_def fp32_is_infinite_def fp32_is_nan_def char_value_word_of_int)

lemma float_to_char_above:
  assumes "fp32_is_finite x" and "real_of_int (char_max t) < fp32_value x"
  shows "char_value t (float_to_char t rc nan x) = char_max t"
proof -
  have "char_max t \<le> \<lfloor>fp32_value x\<rfloor>"
    using assms(2) by (simp add: le_floor_iff)
  also have "\<dots> \<le> fp32_to_integer rc x"
    by (rule fp32_to_integer_bounds)
  finally show ?thesis
    using char_min_le_max [of t] by (simp add: float_to_char_finite assms(1))
qed

lemma float_to_char_below:
  assumes "fp32_is_finite x" and "fp32_value x < real_of_int (char_min t)"
  shows "char_value t (float_to_char t rc nan x) = char_min t"
proof -
  have "fp32_to_integer rc x \<le> \<lceil>fp32_value x\<rceil>"
    by (rule fp32_to_integer_bounds)
  also have "\<dots> \<le> char_min t"
    using assms(2) by (simp add: ceiling_le_iff)
  finally show ?thesis
    using char_min_le_max [of t] by (simp add: float_to_char_finite assms(1))
qed

lemma float_to_char_within:
  assumes "fp32_is_finite x" and "real_of_int (char_min t) \<le> fp32_value x"
    and "fp32_value x \<le> real_of_int (char_max t)"
  shows "\<lfloor>fp32_value x\<rfloor> \<le> char_value t (float_to_char t rc nan x)"
    and "char_value t (float_to_char t rc nan x) \<le> \<lceil>fp32_value x\<rceil>"
proof -
  let ?n = "fp32_to_integer rc x"
  have "char_min t \<le> \<lfloor>fp32_value x\<rfloor>"
    using assms(2) by (simp add: le_floor_iff)
  then have lo: "char_min t \<le> ?n"
    using fp32_to_integer_bounds(1) [where x = x and rc = rc] by simp
  have "\<lceil>fp32_value x\<rceil> \<le> char_max t"
    using assms(3) by (simp add: ceiling_le_iff)
  then have hi: "?n \<le> char_max t"
    using fp32_to_integer_bounds(2) [where x = x and rc = rc] by simp
  have "char_value t (float_to_char t rc nan x) = ?n"
    using lo hi by (simp add: float_to_char_finite assms(1))
  then show "\<lfloor>fp32_value x\<rfloor> \<le> char_value t (float_to_char t rc nan x)"
    and "char_value t (float_to_char t rc nan x) \<le> \<lceil>fp32_value x\<rceil>"
    using fp32_to_integer_bounds [where x = x and rc = rc] by simp_all
qed

lemmas fp32_field_defs = fp32_is_finite_def fp32_is_nan_def fp32_is_infinite_def
  fp32_exponent_def fp32_fraction_def fp32_sign_def fp32_scale_def fp32_significand_def

lemma float_to_char_examples:
  "char_value Signed_char (float_to_char Signed_char rc nan 0x447A0000) = 127"
  "char_value Signed_char (float_to_char Signed_char rc nan 0xC47A0000) = - 128"
  "char_value Signed_char (float_to_char Signed_char rc nan 0x42C80000) = 100"
  by (cases rc; simp add: float_to_char_def saturate_char_def char_value_def char_min_def
      char_max_def fp32_to_integer_def round_magnitude_def fp32_field_defs)+


text \<open>
  Claim C1.  For every register of 16 floats and both 8-bit destination types, a lane
  that is not a NaN converts as follows: a value above the largest value of the
  destination type (plus infinity included) gives that largest value, a value below the
  smallest one (minus infinity included) gives that smallest value, and a value in
  between gives one of the two integers next to it, under any rounding control.  In
  particular, for \<^verbatim>\<open>signed char\<close>, 1000.0 gives 127, -1000.0 gives -128 and 100.0 gives 100.
\<close>

theorem float_to_char_saturates:
  assumes "length src = 16" and "i < 16" and "\<not> fp32_is_nan (src ! i)"
  shows "(fp32_is_finite (src ! i) \<and> real_of_int (char_max t) < fp32_value (src ! i)
          \<or> fp32_is_infinite (src ! i) \<and> \<not> fp32_sign (src ! i)
        \<longrightarrow> char_value t (VecConvert_dst_1_float_1 t rc nan upper src ! i) = char_max t)
    \<and> (fp32_is_finite (src ! i) \<and> fp32_value (src ! i) < real_of_int (char_min t)
          \<or> fp32_is_infinite (src ! i) \<and> fp32_sign (src ! i)
        \<longrightarrow> char_value t (VecConvert_dst_1_float_1 t rc nan upper src ! i) = char_min t)
    \<and> (fp32_is_finite (src ! i) \<and> real_of_int (char_min t) \<le> fp32_value (src ! i)
          \<and> fp32_value (src ! i) \<le> real_of_int (char_max t)
        \<longrightarrow> \<lfloor>fp32_value (src ! i)\<rfloor>
              \<le> char_value t (VecConvert_dst_1_float_1 t rc nan upper src ! i)
            \<and> char_value t (VecConvert_dst_1_float_1 t rc nan upper src ! i)
              \<le> \<lceil>fp32_value (src ! i)\<rceil>)
    \<and> char_value Signed_char (float_to_char Signed_char rc nan 0x447A0000) = 127
    \<and> char_value Signed_char (float_to_char Signed_char rc nan 0xC47A0000) = - 128
    \<and> char_value Signed_char (float_to_char Signed_char rc nan 0x42C80000) = 100"
proof -
  have l: "VecConvert_dst_1_float_1 t rc nan upper src ! i = float_to_char t rc nan (src ! i)"
    using assms by (simp add: float_to_char_lanes nth_append)
  show ?thesis
    unfolding l
    by (intro conjI impI; (elim disjE conjE)?)
      (simp_all add: float_to_char_above float_to_char_below float_to_char_within
        float_to_char_infinite float_to_char_examples)
qed

lemma ex_float_fp32_values:
  "fp32_value 0x447A0000 = 1000" "fp32_value 0xC47A0000 = - 1000" "fp32_value 0x42C80000 = 100"
  "fp32_value 0xBFC00000 = - 3 / 2"
  by (simp_all add: fp32_value_def fp32_field_defs)

theorem float_to_char_saturates_witness:
  "length ex_float = 16 \<and> (3::nat) < 16 \<and> (6::nat) < 16 \<and> (2::nat) < 16
   \<and> \<not> fp32_is_nan (ex_float ! 0) \<and> fp32_is_finite (ex_float ! 0)
   \<and> fp32_value (ex_float ! 0) = 1000
   \<and> char_value Signed_char
        (VecConvert_dst_1_float_1 Signed_char Round_nearest 0 [] ex_float ! 0) = 127
   \<and> char_value Unsigned_char
        (VecConvert_dst_1_float_1 Unsigned_char Round_nearest 0 [] ex_float ! 0) = 255
   \<and> \<not> fp32_is_nan (ex_float ! 3) \<and> fp32_is_finite (ex_float ! 3)
   \<and> fp32_value (ex_float ! 3) = - 1000
   \<and> char_value Signed_char
        (VecConvert_dst_1_float_1 Signed_char Round_nearest 0 [] ex_float ! 3) = - 128
   \<and> char_value Unsigned_char
        (VecConvert_dst_1_float_1 Unsigned_char Round_nearest 0 [] ex_float ! 3) = 0
   \<and> fp32_is_infinite (ex_float ! 6) \<and> fp32_sign (ex_float ! 6)
   \<and> char_value Signed_char
        (VecConvert_dst_1_float_1 Signed_char Round_nearest 0 [] ex_float ! 6) = - 128
   \<and> fp32_is_finite (ex_float ! 2) \<and> fp32_value (ex_float ! 2) = - 3 / 2
   \<and> - 2 \<le> char_value Signed_char
        (VecConvert_dst_1_float_1 Signed_char Round_nearest 0 [] ex_float ! 2)
   \<and> char_value Signed_char
        (VecConvert_dst_1_float_1 Signed_char Round_nearest 0 [] ex_float ! 2) \<le> - 1"
proof -
  have len: "length ex_float = 16"
    by (simp add: ex_float_def)
  have x: "ex_float ! 0 = 0x447A0000" "ex_float ! 3 = 0xC47A0000" "ex_float ! 6 = 0xFF800000"
    "ex_float ! 2 = 0xBFC00000"
    by (simp_all add: ex_float_def)
  have c: "\<not> fp32_is_nan (ex_float ! 0)" "fp32_is_finite (ex_float ! 0)"
    "\<not> fp32_is_nan (ex_float ! 3)" "fp32_is_finite (ex_float ! 3)"
    "\<not> fp32_is_nan (ex_float ! 6)" "fp32_is_infinite (ex_float ! 6)" "fp32_sign (ex_float ! 6)"
    "\<not> fp32_is_nan (ex_float ! 2)" "fp32_is_finite (ex_float ! 2)"
    by (simp_all add: x fp32_field_defs)
  note v = ex_float_fp32_values [folded x]
  have i: "(0::nat) < 16" "(3::nat) < 16" "(6::nat) < 16" "(2::nat) < 16"
    by simp_all
  note T = float_to_char_saturates [OF len _ _, where rc = Round_nearest and nan = 0
      and upper = "[]"]
  show ?thesis
    using T [OF i(1) c(1), of Signed_char] T [OF i(1) c(1), of Unsigned_char]
      T [OF i(2) c(3), of Signed_char] T [OF i(2) c(3), of Unsigned_char]
      T [OF i(3) c(5), of Signed_char] T [OF i(4) c(8), of Signed_char]
    by (simp add: len c v char_min_def char_max_def)
qed

end
